theory Spec2Isabelle
  imports
    Main
    "HOL-Library.Sublist"
    "HOL-Library.List_Lexorder"
    "HOL-Library.Char_ord"
    "HOL-Library.Multiset"
begin

section \<open>Strings and the JavaScript string primitives the plugin uses\<close>

text \<open>
  The plugin (\<^verbatim>\<open>src/vite-plugin.mjs\<close>) works on JavaScript strings. A JavaScript string is a
  sequence of 16-bit code units; the model uses \<^typ>\<open>string\<close>, so one \<^typ>\<open>char\<close> stands
  for one code unit below 256. On such strings \<^verbatim>\<open>slice\<close>, \<^verbatim>\<open>indexOf\<close>,
  \<^verbatim>\<open>startsWith\<close>, \<^verbatim>\<open>split\<close>, the default \<^verbatim>\<open>sort\<close> and the regular expressions below
  behave exactly as on the code units. Of the four characters that the regular-expression
  dot refuses (LF, CR, U+2028, U+2029) the first two are in this range.
\<close>

definition DC_PREFIX :: string where
  "DC_PREFIX = ''dc:''"

definition nl :: string where
  "nl = [CHR 0x0A]"

definition lineTerminator :: "char \<Rightarrow> bool" where
  "lineTerminator c = (c = CHR 0x0A \<or> c = CHR 0x0D)"

text \<open>\<^verbatim>\<open>.*$\<close> at the end of a regular expression without flags: the rest of the input,
  which must hold no line terminator.\<close>

definition dotStarEnd :: "string \<Rightarrow> bool" where
  "dotStarEnd s = list_all (\<lambda>c. \<not> lineTerminator c) s"

text \<open>\<^verbatim>\<open>[a-zA-Z]\<close>\<close>

definition asciiLetter :: "char \<Rightarrow> bool" where
  "asciiLetter c = (let n = (of_char c :: nat) in (65 \<le> n \<and> n \<le> 90) \<or> (97 \<le> n \<and> n \<le> 122))"

text \<open>\<^verbatim>\<open>s.indexOf(c)\<close> and \<^verbatim>\<open>s.lastIndexOf(c)\<close> for a one-character \<^verbatim>\<open>c\<close>; the
  result \<^verbatim>\<open>-1\<close> is \<^term>\<open>None\<close>.\<close>

fun indexOf :: "string \<Rightarrow> char \<Rightarrow> nat option" where
  "indexOf [] c = None"
| "indexOf (x # xs) c = (if x = c then Some 0 else map_option Suc (indexOf xs c))"

fun lastIndexOf :: "string \<Rightarrow> char \<Rightarrow> nat option" where
  "lastIndexOf [] c = None"
| "lastIndexOf (x # xs) c =
     (case lastIndexOf xs c of
        Some i \<Rightarrow> Some (Suc i)
      | None \<Rightarrow> if x = c then Some 0 else None)"

text \<open>\<^verbatim>\<open>s.split(c)\<close> for a one-character separator: every piece, the empty ones too.\<close>

fun split :: "char \<Rightarrow> string \<Rightarrow> string list" where
  "split sep [] = [[]]"
| "split sep (c # cs) =
     (if c = sep then [] # split sep cs
      else (case split sep cs of
              p # ps \<Rightarrow> (c # p) # ps
            | [] \<Rightarrow> [[c]]))"

text \<open>\<^verbatim>\<open>xs.join(sep)\<close>\<close>

fun join :: "string \<Rightarrow> string list \<Rightarrow> string" where
  "join sep [] = []"
| "join sep [x] = x"
| "join sep (x # y # ys) = x @ sep @ join sep (y # ys)"

text \<open>\<^verbatim>\<open>normalizePath\<close> (lines 23-25): every backslash becomes a forward slash.\<close>

definition normalizePath :: "string \<Rightarrow> string" where
  "normalizePath p = map (\<lambda>c. if c = CHR 0x5C then CHR ''/'' else c) p"

section \<open>The glob base\<close>

text \<open>
  \<^verbatim>\<open>getGlobBase\<close> (lines 32-49). The loop over \<^verbatim>\<open>globChars\<close> keeps the smallest index found so
  far, starting from the pattern's length.
\<close>

definition globChars :: "char list" where
  "globChars = [CHR ''*'', CHR ''?'', CHR ''['', CHR ''{'']"

fun firstGlobIndexLoop :: "string \<Rightarrow> char list \<Rightarrow> nat \<Rightarrow> nat" where
  "firstGlobIndexLoop pat [] firstGlobIndex = firstGlobIndex"
| "firstGlobIndexLoop pat (ch # chs) firstGlobIndex =
     (case indexOf pat ch of
        Some i \<Rightarrow>
          if i < firstGlobIndex then firstGlobIndexLoop pat chs i
          else firstGlobIndexLoop pat chs firstGlobIndex
      | None \<Rightarrow> firstGlobIndexLoop pat chs firstGlobIndex)"

definition getGlobBase :: "string \<Rightarrow> string" where
  "getGlobBase pat =
     (let firstGlobIndex = firstGlobIndexLoop pat globChars (length pat);
          base = take firstGlobIndex pat
      in case lastIndexOf base (CHR ''/'') of
           Some lastSlash \<Rightarrow> take lastSlash base
         | None \<Rightarrow> ''.'')"

text \<open>
  The glob base as the specification words it: the literal prefix is the text before the
  first metacharacter, and the base is that prefix up to and excluding its last separator,
  or the current-directory marker when it has none.
\<close>

definition literalPrefix_spec :: "string \<Rightarrow> string" where
  "literalPrefix_spec pat = takeWhile (\<lambda>c. c \<notin> set globChars) pat"

definition beforeLast :: "char \<Rightarrow> string \<Rightarrow> string" where
  "beforeLast c s = rev (tl (dropWhile (\<lambda>x. x \<noteq> c) (rev s)))"

definition globBase_spec :: "string \<Rightarrow> string" where
  "globBase_spec pat =
     (if CHR ''/'' \<in> set (literalPrefix_spec pat)
      then beforeLast (CHR ''/'') (literalPrefix_spec pat)
      else ''.'')"

section \<open>The import-string parser\<close>

text \<open>
  \<^verbatim>\<open>parseDcImport\<close> (lines 66-98) matches the specifier without its prefix against
  \<^verbatim>\<open>/^(.*?):(\.{0,2}\/.*|[a-zA-Z@].*)$/\<close>. \<^term>\<open>pathPart\<close> is the second group up to the
  end of the input; \<^term>\<open>pathMatchFrom\<close> is the lazy first group: it tries the colon at
  the current position first and otherwise takes one more character, which the dot
  accepts only when it is no line terminator.
\<close>

definition pathPart :: "string \<Rightarrow> bool" where
  "pathPart s =
     (case s of
        [] \<Rightarrow> False
      | c # t \<Rightarrow>
          if c = CHR ''/'' then dotStarEnd t
          else if c = CHR ''.'' then
            (case t of
               [] \<Rightarrow> False
             | d # u \<Rightarrow>
                 if d = CHR ''/'' then dotStarEnd u
                 else if d = CHR ''.'' then
                   (case u of [] \<Rightarrow> False | e # v \<Rightarrow> e = CHR ''/'' \<and> dotStarEnd v)
                 else False)
          else (asciiLetter c \<or> c = CHR ''@'') \<and> dotStarEnd t)"

fun pathMatchFrom :: "string \<Rightarrow> string \<Rightarrow> (string \<times> string) option" where
  "pathMatchFrom acc [] = None"
| "pathMatchFrom acc (c # cs) =
     (if c = CHR '':'' \<and> pathPart cs then Some (acc, cs)
      else if lineTerminator c then None
      else pathMatchFrom (acc @ [c]) cs)"

definition pathMatch :: "string \<Rightarrow> (string \<times> string) option" where
  "pathMatch s = pathMatchFrom [] s"

record parsedDcImport =
  clientDirective :: "string option"
  pattern :: string

text \<open>
  \<^verbatim>\<open>const [name, value] = clientPart.split('=')\<close> binds the first two pieces of the split
  and drops the others; a missing piece is \<^verbatim>\<open>undefined\<close>, which the template literal
  prints as such.
\<close>

definition formatKeyValue :: "string \<Rightarrow> string" where
  "formatKeyValue clientPart =
     (case split (CHR ''='') clientPart of
        name # val # _ \<Rightarrow> ''client:'' @ name @ ''=\"'' @ val @ ''\"''
      | [name] \<Rightarrow> ''client:'' @ name @ ''=\"undefined\"''
      | [] \<Rightarrow> ''client:undefined=\"undefined\"'')"

definition parseDcImport :: "string \<Rightarrow> string \<Rightarrow> parsedDcImport" where
  "parseDcImport source defaultClientDirective =
     (let withoutPrefix = drop (length DC_PREFIX) source
      in case pathMatch withoutPrefix of
           Some (clientPart, pat) \<Rightarrow>
             if clientPart = [] then \<lparr>clientDirective = None, pattern = pat\<rparr>
             else if CHR ''='' \<in> set clientPart
               then \<lparr>clientDirective = Some (formatKeyValue clientPart), pattern = pat\<rparr>
               else \<lparr>clientDirective = Some (''client:'' @ clientPart), pattern = pat\<rparr>
         | None \<Rightarrow>
             \<lparr>clientDirective = Some (''client:'' @ defaultClientDirective),
              pattern = withoutPrefix\<rparr>)"

section \<open>Regular-expression replacements\<close>

text \<open>\<^verbatim>\<open>s.replace(/\/?\*$/, '')\<close> (lines 194 and 204): a trailing star goes, with the slash
  before it when there is one.\<close>

definition stripTrailingStar :: "string \<Rightarrow> string" where
  "stripTrailingStar s =
     (if suffix ''/*'' s then take (length s - 2) s
      else if suffix ''*'' s then butlast s
      else s)"

text \<open>\<^verbatim>\<open>pattern.replace(/\/?\*.*$/, '')\<close> (line 117): the leftmost star (with the slash before
  it) after which no line terminator follows, and everything behind it, goes.\<close>

fun stripFromStar :: "string \<Rightarrow> string" where
  "stripFromStar [] = []"
| "stripFromStar (c # cs) =
     (if c = CHR ''/'' \<and> cs \<noteq> [] \<and> hd cs = CHR ''*'' \<and> dotStarEnd (tl cs) then []
      else if c = CHR ''*'' \<and> dotStarEnd cs then []
      else c # stripFromStar cs)"

text \<open>\<^verbatim>\<open>relativePath.replace(/\.[^.]+$/, '')\<close> (line 319): only the last dot can match, and
  only when at least one character follows it.\<close>

definition stripExtension :: "string \<Rightarrow> string" where
  "stripExtension s =
     (case lastIndexOf s (CHR ''.'') of
        Some i \<Rightarrow> if Suc i < length s then take i s else s
      | None \<Rightarrow> s)"

text \<open>
  \<^verbatim>\<open>s.replace(find, replacement)\<close> with a string \<^verbatim>\<open>find\<close> (line 178) replaces the first
  occurrence and expands the replacement patterns \<^verbatim>\<open>$$\<close>, \<^verbatim>\<open>$&\<close>, the text before the match
  (dollar, backquote) and the text after it (dollar, quote); with no capture groups every
  other dollar stands for itself.
\<close>

fun getSubstitution :: "string \<Rightarrow> string \<Rightarrow> string \<Rightarrow> string \<Rightarrow> string" where
  "getSubstitution matched preceding following [] = []"
| "getSubstitution matched preceding following [c] = [c]"
| "getSubstitution matched preceding following (c # d # r) =
     (if c = CHR ''$'' \<and> d = CHR ''$'' then CHR ''$'' # getSubstitution matched preceding following r
      else if c = CHR ''$'' \<and> d = CHR ''&'' then matched @ getSubstitution matched preceding following r
      else if c = CHR ''$'' \<and> d = CHR 0x60 then preceding @ getSubstitution matched preceding following r
      else if c = CHR ''$'' \<and> d = CHR 0x27 then following @ getSubstitution matched preceding following r
      else c # getSubstitution matched preceding following (d # r))"

fun replaceFrom :: "string \<Rightarrow> string \<Rightarrow> string \<Rightarrow> string \<Rightarrow> string" where
  "replaceFrom preceding [] pat repl =
     (if pat = [] then preceding @ getSubstitution pat preceding [] repl else preceding)"
| "replaceFrom preceding (c # cs) pat repl =
     (if prefix pat (c # cs)
      then preceding @ getSubstitution pat preceding (drop (length pat) (c # cs)) repl
             @ drop (length pat) (c # cs)
      else replaceFrom (preceding @ [c]) cs pat repl)"

definition replaceString :: "string \<Rightarrow> string \<Rightarrow> string \<Rightarrow> string" where
  "replaceString s pat repl = replaceFrom [] s pat repl"

section \<open>The collaborators\<close>

text \<open>
  The plugin calls Node's \<^verbatim>\<open>path\<close> and \<^verbatim>\<open>crypto\<close> modules, \<^verbatim>\<open>fast-glob\<close> and
  \<^verbatim>\<open>get-tsconfig\<close>. None of them is code of the plugin; the model takes them as the fields
  of an environment, and every general theorem holds for whatever they compute.
  \<^verbatim>\<open>fg\<close> is fast-glob called with the plugin's fixed options (absolute paths, files
  only, \<^verbatim>\<open>node_modules\<close> ignored).
\<close>

record tsconfig =
  tsPath :: string
  tsPaths :: "(string \<times> string list) list option"
  tsBaseUrl :: "string option"

record env =
  md5_hex :: "string \<Rightarrow> string"
  path_relative :: "string \<Rightarrow> string \<Rightarrow> string"
  path_join :: "string \<Rightarrow> string \<Rightarrow> string"
  path_resolve :: "string list \<Rightarrow> string"
  path_dirname :: "string \<Rightarrow> string"
  path_basename :: "string \<Rightarrow> string"
  fg :: "string \<Rightarrow> string list"
  getTsconfig :: "string \<Rightarrow> tsconfig option"
  process_cwd :: string

text \<open>\<^verbatim>\<open>md5\<close> (lines 14-16): the first eight characters of the hexadecimal digest.\<close>

definition md5 :: "env \<Rightarrow> string \<Rightarrow> string" where
  "md5 e str = take 8 (md5_hex e str)"

section \<open>The alias resolver\<close>

text \<open>
  An entry of Vite's alias table: \<^verbatim>\<open>find\<close> is a string, a regular expression (of which the
  code reads the \<^verbatim>\<open>source\<close>) or something else (\<^verbatim>\<open>alias.find?.source\<close> is undefined).
  An alias object is turned into the same list by \<^verbatim>\<open>Object.entries\<close>, with string keys.
\<close>

datatype aliasFind = FindString string | FindRegExp string | FindOther

record aliasEntry =
  aliasFind :: aliasFind
  aliasReplacement :: string

record viteConfig =
  resolveAliasTable :: "aliasEntry list option"
  root :: "string option"

definition findSource :: "aliasFind \<Rightarrow> string option" where
  "findSource f = (case f of FindString s \<Rightarrow> Some s | FindRegExp src \<Rightarrow> Some src | FindOther \<Rightarrow> None)"

text \<open>The first loop of \<^verbatim>\<open>resolveAlias\<close> (lines 172-180).\<close>

fun viteAliasLoop :: "string \<Rightarrow> aliasEntry list \<Rightarrow> string option" where
  "viteAliasLoop aliasPath [] = None"
| "viteAliasLoop aliasPath (a # rest) =
     (case findSource (aliasFind a) of
        None \<Rightarrow> viteAliasLoop aliasPath rest
      | Some f \<Rightarrow>
          if f = [] then viteAliasLoop aliasPath rest
          else if prefix f aliasPath then Some (replaceString aliasPath f (aliasReplacement a))
          else viteAliasLoop aliasPath rest)"

text \<open>The second loop (lines 191-209), over the entries of \<^verbatim>\<open>compilerOptions.paths\<close>.\<close>

fun tsPathsLoop :: "env \<Rightarrow> string \<Rightarrow> string \<Rightarrow> (string \<times> string list) list \<Rightarrow> string option" where
  "tsPathsLoop e baseUrlResolved aliasPath [] = None"
| "tsPathsLoop e baseUrlResolved aliasPath ((pat, mappings) # rest) =
     (let pfx = stripTrailingStar pat
      in if prefix pfx aliasPath then
           (case mappings of
              [] \<Rightarrow> tsPathsLoop e baseUrlResolved aliasPath rest
            | mapping # _ \<Rightarrow>
                if mapping = [] then tsPathsLoop e baseUrlResolved aliasPath rest
                else
                  let sfx = drop (length pfx) aliasPath;
                      resolvedPath = stripTrailingStar mapping @ sfx
                  in Some (path_resolve e [baseUrlResolved, resolvedPath]))
         else tsPathsLoop e baseUrlResolved aliasPath rest)"

definition viteTier :: "string \<Rightarrow> viteConfig option \<Rightarrow> string option" where
  "viteTier aliasPath cfg =
     (case cfg of
        None \<Rightarrow> None
      | Some c \<Rightarrow>
          (case resolveAliasTable c of
             None \<Rightarrow> None
           | Some aliases \<Rightarrow> viteAliasLoop aliasPath aliases))"

definition baseUrlResolvedOf :: "env \<Rightarrow> tsconfig \<Rightarrow> string" where
  "baseUrlResolvedOf e ts =
     (let baseUrl = (case tsBaseUrl ts of None \<Rightarrow> ''.'' | Some b \<Rightarrow> if b = [] then ''.'' else b)
      in path_resolve e [path_dirname e (tsPath ts), baseUrl])"

definition tsTier :: "env \<Rightarrow> string \<Rightarrow> string \<Rightarrow> string option" where
  "tsTier e aliasPath cwd =
     (case getTsconfig e cwd of
        None \<Rightarrow> None
      | Some ts \<Rightarrow>
          (case tsPaths ts of
             None \<Rightarrow> None
           | Some paths \<Rightarrow> tsPathsLoop e (baseUrlResolvedOf e ts) aliasPath paths))"

text \<open>\<^verbatim>\<open>resolveAlias\<close> (lines 166-213).\<close>

definition resolveAlias :: "env \<Rightarrow> string \<Rightarrow> viteConfig option \<Rightarrow> string \<Rightarrow> string option" where
  "resolveAlias e aliasPath cfg cwd =
     (case viteTier aliasPath cfg of
        Some r \<Rightarrow> Some r
      | None \<Rightarrow> tsTier e aliasPath cwd)"

section \<open>The virtual module synthesizer\<close>

record componentMetadata =
  importName :: string
  compName :: string
  filePath :: string
  isAstro :: bool

text \<open>One import statement (lines 113-129).\<close>

definition importLine :: "env \<Rightarrow> string \<Rightarrow> string \<Rightarrow> bool \<Rightarrow> string \<Rightarrow> componentMetadata \<Rightarrow> string" where
  "importLine e pat baseDir isPathAlias srcDirAbsolute c =
     (let importPath =
            (if isPathAlias then
               let patternDir = stripFromStar pat;
                   relativePath = normalizePath (path_relative e baseDir (filePath c))
               in patternDir @ ''/'' @ relativePath
             else
               let relativePath = normalizePath (path_relative e srcDirAbsolute (filePath c))
               in ''../'' @ relativePath)
      in ''import '' @ importName c @ '' from \"'' @ importPath @ ''\";'')"

text \<open>
  One conditional render (lines 137-141). \<^verbatim>\<open>!clientDirective\<close> holds for \<^verbatim>\<open>null\<close> and for
  the empty string.
\<close>

definition clientAttr :: "string option \<Rightarrow> componentMetadata \<Rightarrow> string" where
  "clientAttr directive c =
     (case directive of
        None \<Rightarrow> []
      | Some d \<Rightarrow> if isAstro c \<or> d = [] then [] else '' '' @ d)"

definition conditionalRender :: "string option \<Rightarrow> componentMetadata \<Rightarrow> string" where
  "conditionalRender directive c =
     ''{ Astro.props.comp === \"'' @ compName c @ ''\" && <'' @ importName c
       @ clientAttr directive c @ '' {...rest} /> }''"

definition conditionalRenders :: "string option \<Rightarrow> componentMetadata list \<Rightarrow> string list" where
  "conditionalRenders directive components = map (conditionalRender directive) components"

text \<open>\<^verbatim>\<open>generateVirtualAstroComponent\<close> (lines 110-157).\<close>

definition generateVirtualAstroComponent ::
  "env \<Rightarrow> string \<Rightarrow> string \<Rightarrow> string option \<Rightarrow> componentMetadata list \<Rightarrow> bool \<Rightarrow> string \<Rightarrow> string" where
  "generateVirtualAstroComponent e pat baseDir directive components isPathAlias srcDirAbsolute =
     (let imports = join nl (map (importLine e pat baseDir isPathAlias srcDirAbsolute) components);
          compTypes = join '' | '' (map (\<lambda>c. ''\"'' @ compName c @ ''\"'') components);
          renders = join nl (conditionalRenders directive components)
      in ''---'' @ nl @ imports @ nl @ nl
         @ ''interface Props {'' @ nl
         @ ''    comp: '' @ compTypes @ '';'' @ nl
         @ ''    [key: string]: any;'' @ nl
         @ ''}'' @ nl @ nl
         @ ''const { comp, ...rest } = Astro.props;'' @ nl
         @ ''---'' @ nl @ nl
         @ renders @ nl)"

text \<open>
  Reading a conditional render back: its guard compares the selector with the string
  literal that opens after \<^verbatim>\<open>Astro.props.comp === \<close> and runs to the next double quote (a
  display name holds no backslash, \<^verbatim>\<open>normalizePath\<close> has replaced them all, so the literal
  has no escape). A selector value selects the branches whose literal it equals.
\<close>

definition guardOpen :: string where
  "guardOpen = ''{ Astro.props.comp === \"''"

definition guardLiteral :: "string \<Rightarrow> string option" where
  "guardLiteral branch =
     (if prefix guardOpen branch
      then Some (takeWhile (\<lambda>c. c \<noteq> CHR 0x22) (drop (length guardOpen) branch))
      else None)"

definition selectedBranches :: "string \<Rightarrow> string list \<Rightarrow> string list" where
  "selectedBranches selector branches = filter (\<lambda>b. guardLiteral b = Some selector) branches"

section \<open>The plugin: options, state, hooks\<close>

record pluginOptions =
  optDefaultClientDirective :: "string option"
  optLogger :: bool
  optSrcDir :: "string option"

text \<open>Line 225 and line 230: the destructuring default and \<^verbatim>\<open>astroSrcDir || 'src'\<close>.\<close>

definition defaultClientDirectiveOf :: "pluginOptions \<Rightarrow> string" where
  "defaultClientDirectiveOf opts =
     (case optDefaultClientDirective opts of None \<Rightarrow> ''load'' | Some d \<Rightarrow> d)"

definition srcDirOf :: "pluginOptions \<Rightarrow> string" where
  "srcDirOf opts =
     (case optSrcDir opts of None \<Rightarrow> ''src'' | Some d \<Rightarrow> if d = [] then ''src'' else d)"

text \<open>
  The closure's variables (\<^verbatim>\<open>viteConfig\<close>, \<^verbatim>\<open>projectRoot\<close>, \<^verbatim>\<open>codeCache\<close>), and what the
  hooks do to the outside, as logs: \<^verbatim>\<open>console.warn\<close>, \<^verbatim>\<open>logger.debug\<close>, the patterns handed
  to fast-glob and the virtual paths for which \<^verbatim>\<open>generateVirtualAstroComponent\<close> was called.
\<close>

record pluginState =
  viteConfig :: "viteConfig option"
  projectRoot :: string
  codeCache :: "string \<rightharpoonup> string"
  warned :: "string list"
  debugged :: "string list"
  globbed :: "string list"
  generated :: "string list"

definition createDynamicComponentVitePlugin :: "env \<Rightarrow> pluginState" where
  "createDynamicComponentVitePlugin e =
     \<lparr>viteConfig = None, projectRoot = process_cwd e, codeCache = Map.empty,
      warned = [], debugged = [], globbed = [], generated = []\<rparr>"

definition configResolved :: "env \<Rightarrow> pluginState \<Rightarrow> viteConfig \<Rightarrow> pluginState" where
  "configResolved e st config =
     st\<lparr>viteConfig := Some config,
        projectRoot :=
          (case root config of
             None \<Rightarrow> process_cwd e
           | Some r \<Rightarrow> if r = [] then process_cwd e else r)\<rparr>"

definition warn :: "string \<Rightarrow> pluginState \<Rightarrow> pluginState" where
  "warn msg st = st\<lparr>warned := warned st @ [msg]\<rparr>"

text \<open>A number in a template literal: its decimal digits.\<close>

fun decimal :: "nat \<Rightarrow> string" where
  "decimal n =
     (if n < 10 then [''0123456789'' ! n]
      else decimal (n div 10) @ [''0123456789'' ! (n mod 10)])"

text \<open>Line 266.\<close>

definition isPathAlias :: "string \<Rightarrow> bool" where
  "isPathAlias pat = (\<not> prefix ''./'' pat \<and> \<not> prefix ''../'' pat \<and> \<not> prefix ''/'' pat)"

text \<open>
  Lines 268-292 of \<^verbatim>\<open>resolveId\<close>: the base directory and the pattern handed to fast-glob,
  or \<^term>\<open>None\<close> when the alias does not resolve (\<^verbatim>\<open>!resolvedBase\<close>: \<^verbatim>\<open>null\<close> or empty).
\<close>

definition resolveBase :: "env \<Rightarrow> pluginState \<Rightarrow> string \<Rightarrow> string \<Rightarrow> (string \<times> string) option" where
  "resolveBase e st pat importer =
     (if isPathAlias pat then
        let patternBase = getGlobBase pat
        in case resolveAlias e patternBase (viteConfig st) (projectRoot st) of
             None \<Rightarrow> None
           | Some resolvedBase \<Rightarrow>
               if resolvedBase = [] then None
               else
                 let baseDir = resolvedBase;
                     globPart = drop (length patternBase) pat
                 in Some (baseDir, normalizePath (baseDir @ globPart))
      else
        let importerDir = path_dirname e importer
        in Some (path_join e importerDir (getGlobBase pat),
                 normalizePath (path_join e importerDir pat)))"

text \<open>Lines 306-314 and line 327: the virtual file path of a list of matched files.\<close>

definition relativePaths :: "env \<Rightarrow> string \<Rightarrow> string list \<Rightarrow> string list" where
  "relativePaths e srcDirAbsolute files =
     sort (map (\<lambda>f. normalizePath (path_relative e srcDirAbsolute f)) files)"

definition virtualFilePathOf :: "env \<Rightarrow> string \<Rightarrow> string \<Rightarrow> string list \<Rightarrow> string" where
  "virtualFilePathOf e projRoot srcDir files =
     (let srcDirAbsolute = path_resolve e [projRoot, srcDir];
          pathsString = join '','' (relativePaths e srcDirAbsolute files);
          hash = md5 e pathsString
      in path_resolve e [projRoot, srcDir, ''_generate_'', ''_virtual_dc_'' @ hash @ ''.astro''])"

text \<open>Lines 317-324: the component list.\<close>

definition componentOf :: "env \<Rightarrow> string \<Rightarrow> string \<Rightarrow> componentMetadata" where
  "componentOf e baseDir file =
     (let relativePath = normalizePath (path_relative e baseDir file)
      in \<lparr>importName = ''Com_'' @ md5 e relativePath,
          compName = stripExtension relativePath,
          filePath = file,
          isAstro = suffix ''.astro'' file\<rparr>)"

definition componentsOf :: "env \<Rightarrow> string \<Rightarrow> string list \<Rightarrow> componentMetadata list" where
  "componentsOf e baseDir files = map (componentOf e baseDir) files"

text \<open>Lines 301-339: what \<^verbatim>\<open>resolveId\<close> does with the matched files.\<close>

definition synthesize ::
  "env \<Rightarrow> pluginOptions \<Rightarrow> pluginState \<Rightarrow> parsedDcImport \<Rightarrow> string \<Rightarrow> string list
     \<Rightarrow> string option \<times> pluginState" where
  "synthesize e opts st parsed baseDir files =
     (if files = [] then
        (None, warn (''[dynamic-component] No files matched for pattern \"'' @ pattern parsed @ ''\"'') st)
      else
        let srcDirAbsolute = path_resolve e [projectRoot st, srcDirOf opts];
            components = componentsOf e baseDir files;
            virtualFilePath = virtualFilePathOf e (projectRoot st) (srcDirOf opts) files
        in if codeCache st virtualFilePath = None then
             let code = generateVirtualAstroComponent e (pattern parsed) baseDir
                          (clientDirective parsed) components (isPathAlias (pattern parsed))
                          srcDirAbsolute;
                 st1 = st\<lparr>codeCache := (codeCache st)(virtualFilePath \<mapsto> code),
                          generated := generated st @ [virtualFilePath]\<rparr>;
                 st2 = (if optLogger opts then
                          st1\<lparr>debugged := debugged st1 @
                            [''[dynamic-component] Generated virtual component at ''
                               @ virtualFilePath @ '' with '' @ decimal (length components)
                               @ '' components'']\<rparr>
                        else st1)
             in (Some virtualFilePath, st2)
           else (Some virtualFilePath, st))"

text \<open>\<^verbatim>\<open>resolveId\<close> (lines 252-340). An importer that is \<^verbatim>\<open>undefined\<close> is \<^term>\<open>None\<close>;
  \<^verbatim>\<open>!importer\<close> also holds for the empty string.\<close>

definition resolveId ::
  "env \<Rightarrow> pluginOptions \<Rightarrow> pluginState \<Rightarrow> string \<Rightarrow> string option \<Rightarrow> string option \<times> pluginState" where
  "resolveId e opts st source importer =
     (if \<not> prefix DC_PREFIX source then (None, st)
      else if importer = None \<or> importer = Some [] then
        (None, warn (''[dynamic-component] Cannot resolve \"'' @ source @ ''\" without importer'') st)
      else
        let parsed = parseDcImport source (defaultClientDirectiveOf opts)
        in case resolveBase e st (pattern parsed) (case importer of Some i \<Rightarrow> i | None \<Rightarrow> []) of
             None \<Rightarrow>
               (None, warn (''[dynamic-component] Cannot resolve path alias \"''
                              @ getGlobBase (pattern parsed) @ ''\".'') st)
           | Some (baseDir, resolvedPattern) \<Rightarrow>
               synthesize e opts (st\<lparr>globbed := globbed st @ [resolvedPattern]\<rparr>) parsed baseDir
                 (fg e resolvedPattern))"

text \<open>\<^verbatim>\<open>load\<close> (lines 346-362). The first test is the source's
  \<^verbatim>\<open>!startsWith || !endsWith\<close>, written as one negation.\<close>

definition load :: "env \<Rightarrow> pluginState \<Rightarrow> string \<Rightarrow> string option \<times> pluginState" where
  "load e st ident =
     (let fileName = path_basename e ident
      in if \<not> (prefix ''_virtual_dc_'' fileName \<and> suffix ''.astro'' fileName) then (None, st)
         else
           (case codeCache st ident of
              Some code \<Rightarrow>
                if code \<noteq> [] then (Some code, st)
                else (None, warn (''[dynamic-component] Code not found in cache for '' @ ident) st)
            | None \<Rightarrow> (None, warn (''[dynamic-component] Code not found in cache for '' @ ident) st)))"

text \<open>
  A build is a sequence of hook calls on one plugin instance. The file system may change
  between two calls, so each call comes with the environment it runs in.
\<close>

datatype hookCall =
  ConfigResolved viteConfig
| ResolveId string "string option"
| Load string

definition hook :: "pluginOptions \<Rightarrow> pluginState \<Rightarrow> env \<times> hookCall \<Rightarrow> pluginState" where
  "hook opts st ec =
     (case ec of
        (e, ConfigResolved config) \<Rightarrow> configResolved e st config
      | (e, ResolveId source importer) \<Rightarrow> snd (resolveId e opts st source importer)
      | (e, Load ident) \<Rightarrow> snd (load e st ident))"

definition build :: "pluginOptions \<Rightarrow> env \<Rightarrow> (env \<times> hookCall) list \<Rightarrow> pluginState" where
  "build opts e0 calls = foldl (hook opts) (createDynamicComponentVitePlugin e0) calls"

section \<open>A concrete environment for examples\<close>

text \<open>
  The examples below run the hooks in a small POSIX project. The path functions follow
  Node's \<^verbatim>\<open>path.posix\<close>; the digest is a stand-in, a 32-bit checksum printed in
  hexadecimal (no statement below depends on what the digest computes); the
  file system is the function \<^term>\<open>project_fg\<close>.
\<close>

fun normalizeSegments :: "bool \<Rightarrow> string list \<Rightarrow> string list \<Rightarrow> string list" where
  "normalizeSegments allowAboveRoot acc [] = rev acc"
| "normalizeSegments allowAboveRoot acc (seg # segs) =
     (if seg = [] \<or> seg = ''.'' then normalizeSegments allowAboveRoot acc segs
      else if seg = ''..'' then
        (case acc of
           [] \<Rightarrow>
             if allowAboveRoot then normalizeSegments allowAboveRoot [''..''] segs
             else normalizeSegments allowAboveRoot [] segs
         | a # rest \<Rightarrow>
             if a = ''..'' then normalizeSegments allowAboveRoot (''..'' # acc) segs
             else normalizeSegments allowAboveRoot rest segs)
      else normalizeSegments allowAboveRoot (seg # acc) segs)"

definition posix_normalize :: "string \<Rightarrow> string" where
  "posix_normalize p =
     (if p = [] then ''.''
      else
        let isAbsolute = (hd p = CHR ''/'');
            trailingSeparator = (last p = CHR ''/'');
            body = join ''/'' (normalizeSegments (\<not> isAbsolute) [] (split (CHR ''/'') p));
            body1 = (if body = [] \<and> \<not> isAbsolute then ''.'' else body);
            body2 = (if body1 \<noteq> [] \<and> trailingSeparator then body1 @ ''/'' else body1)
        in if isAbsolute then ''/'' @ body2 else body2)"

definition posix_join :: "string \<Rightarrow> string \<Rightarrow> string" where
  "posix_join a b =
     (let joined = join ''/'' (filter (\<lambda>x. x \<noteq> []) [a, b])
      in if joined = [] then ''.'' else posix_normalize joined)"

fun resolveFrom :: "string \<Rightarrow> string list \<Rightarrow> string \<Rightarrow> string" where
  "resolveFrom cwd [] resolvedPath = cwd @ ''/'' @ resolvedPath"
| "resolveFrom cwd (p # ps) resolvedPath =
     (if p = [] then resolveFrom cwd ps resolvedPath
      else if hd p = CHR ''/'' then p @ ''/'' @ resolvedPath
      else resolveFrom cwd ps (p @ ''/'' @ resolvedPath))"

definition posix_resolve :: "string \<Rightarrow> string list \<Rightarrow> string" where
  "posix_resolve cwd args =
     (let resolvedPath = resolveFrom cwd (rev args) [];
          isAbsolute = (resolvedPath \<noteq> [] \<and> hd resolvedPath = CHR ''/'');
          body = join ''/'' (normalizeSegments (\<not> isAbsolute) [] (split (CHR ''/'') resolvedPath))
      in if isAbsolute then ''/'' @ body
         else if body = [] then ''.'' else body)"

definition posix_dirname :: "string \<Rightarrow> string" where
  "posix_dirname p =
     (if p = [] then ''.''
      else
        let hasRoot = (hd p = CHR ''/'');
            upToLastSlash =
              dropWhile (\<lambda>c. c \<noteq> CHR ''/'') (dropWhile (\<lambda>c. c = CHR ''/'') (rev (tl p)))
        in if upToLastSlash = [] then (if hasRoot then ''/'' else ''.'')
           else if hasRoot \<and> tl upToLastSlash = [] then ''//''
           else hd p # rev (tl upToLastSlash))"

definition posix_basename :: "string \<Rightarrow> string" where
  "posix_basename p =
     rev (takeWhile (\<lambda>c. c \<noteq> CHR ''/'') (dropWhile (\<lambda>c. c = CHR ''/'') (rev p)))"

fun dropCommon :: "string list \<Rightarrow> string list \<Rightarrow> string list \<times> string list" where
  "dropCommon (x # xs) (y # ys) = (if x = y then dropCommon xs ys else (x # xs, y # ys))"
| "dropCommon xs ys = (xs, ys)"

definition posix_relative :: "string \<Rightarrow> string \<Rightarrow> string \<Rightarrow> string" where
  "posix_relative cwd from to =
     (let f = filter (\<lambda>x. x \<noteq> []) (split (CHR ''/'') (posix_resolve cwd [from]));
          t = filter (\<lambda>x. x \<noteq> []) (split (CHR ''/'') (posix_resolve cwd [to]))
      in case dropCommon f t of
           (up, down) \<Rightarrow> join ''/'' (map (\<lambda>_. ''..'') up @ down))"

definition hexDigit :: "nat \<Rightarrow> char" where
  "hexDigit n = ''0123456789abcdef'' ! n"

definition checksum :: "string \<Rightarrow> nat" where
  "checksum s = foldl (\<lambda>h c. (h * 31 + of_char c) mod 4294967296) 7 s"

definition sample_digest :: "string \<Rightarrow> string" where
  "sample_digest s =
     (let h = checksum s
      in [hexDigit (h div 268435456 mod 16), hexDigit (h div 16777216 mod 16),
          hexDigit (h div 1048576 mod 16), hexDigit (h div 65536 mod 16),
          hexDigit (h div 4096 mod 16), hexDigit (h div 256 mod 16),
          hexDigit (h div 16 mod 16), hexDigit (h mod 16)]
         @ replicate 24 (CHR ''0''))"

text \<open>The project: components that differ in their extension only, a native template
  beside a Vue component, shared components listed in two orders, and a path-mapping
  file.\<close>

definition project_fg :: "string \<Rightarrow> string list" where
  "project_fg pat =
     (if pat = ''/project/src/pages/buttons/*.*'' then
        [''/project/src/pages/buttons/Button.vue'', ''/project/src/pages/buttons/Button.jsx'']
      else if pat = ''/project/src/pages/icons/*.*'' then
        [''/project/src/pages/icons/Star.astro'', ''/project/src/pages/icons/Moon.vue'']
      else if pat = ''/project/src/pages/shared/*.jsx'' then
        [''/project/src/pages/shared/B.jsx'', ''/project/src/pages/shared/A.jsx'']
      else if pat = ''/project/src/pages/shared/?.jsx'' then
        [''/project/src/pages/shared/A.jsx'', ''/project/src/pages/shared/B.jsx'']
      else if pat = ''/project/src/components/*.vue'' then
        [''/project/src/components/Card.vue'']
      else [])"

definition project_tsconfig :: "string \<Rightarrow> tsconfig option" where
  "project_tsconfig cwd =
     (if cwd = ''/project''
      then Some \<lparr>tsPath = ''/project/tsconfig.json'',
                 tsPaths = Some [(''~/*'', [''src/*''])],
                 tsBaseUrl = None\<rparr>
      else None)"

definition project_env :: env where
  "project_env =
     \<lparr>md5_hex = sample_digest,
      path_relative = posix_relative ''/project'',
      path_join = posix_join,
      path_resolve = posix_resolve ''/project'',
      path_dirname = posix_dirname,
      path_basename = posix_basename,
      fg = project_fg,
      getTsconfig = project_tsconfig,
      process_cwd = ''/project''\<rparr>"

definition project_options :: pluginOptions where
  "project_options =
     \<lparr>optDefaultClientDirective = None, optLogger = False, optSrcDir = Some ''/project/src''\<rparr>"

definition project_config :: viteConfig where
  "project_config =
     \<lparr>resolveAliasTable =
        Some [\<lparr>aliasFind = FindString [], aliasReplacement = ''/nowhere''\<rparr>,
              \<lparr>aliasFind = FindString ''@'', aliasReplacement = ''/project/src''\<rparr>],
      root = Some ''/project''\<rparr>"

definition project_state :: pluginState where
  "project_state =
     configResolved project_env (createDynamicComponentVitePlugin project_env) project_config"

section \<open>Vocabulary of the specification\<close>

text \<open>
  The parser's boundary as the specification words it: a colon immediately followed by
  \<^verbatim>\<open>./\<close>, \<^verbatim>\<open>../\<close>, \<^verbatim>\<open>/\<close>, a letter or \<^verbatim>\<open>@\<close>.
\<close>

definition pathStart :: "string \<Rightarrow> bool" where
  "pathStart t =
     (prefix ''./'' t \<or> prefix ''../'' t \<or> prefix ''/'' t
      \<or> (t \<noteq> [] \<and> (asciiLetter (hd t) \<or> hd t = CHR ''@'')))"

definition boundaryAt :: "string \<Rightarrow> nat \<Rightarrow> bool" where
  "boundaryAt r i = (i < length r \<and> r ! i = CHR '':'' \<and> pathStart (drop (Suc i) r))"

text \<open>
  The alias resolver's two tiers as the specification words them. An entry of the
  build-tool table matches when its \<^verbatim>\<open>find\<close> text is a literal prefix of the path; the code
  skips an entry without \<^verbatim>\<open>find\<close> text (\<^verbatim>\<open>if (!find) continue\<close>). An entry of the path
  mapping matches when its pattern, normalized, is a prefix of the path; the code skips
  one without a first target (\<^verbatim>\<open>if (!mapping) continue\<close>).
\<close>

definition viteEntryMatches :: "string \<Rightarrow> aliasEntry \<Rightarrow> bool" where
  "viteEntryMatches aliasPath a =
     (case findSource (aliasFind a) of
        None \<Rightarrow> False
      | Some f \<Rightarrow> f \<noteq> [] \<and> prefix f aliasPath)"

definition tsEntryMatches :: "string \<Rightarrow> string \<times> string list \<Rightarrow> bool" where
  "tsEntryMatches aliasPath entry =
     (case entry of
        (pat, mappings) \<Rightarrow>
          prefix (stripTrailingStar pat) aliasPath
          \<and> (case mappings of [] \<Rightarrow> False | mapping # _ \<Rightarrow> mapping \<noteq> []))"

definition viteAliases :: "viteConfig option \<Rightarrow> aliasEntry list" where
  "viteAliases cfg =
     (case cfg of
        None \<Rightarrow> []
      | Some c \<Rightarrow> (case resolveAliasTable c of None \<Rightarrow> [] | Some aliases \<Rightarrow> aliases))"

definition tsPathEntries :: "env \<Rightarrow> string \<Rightarrow> (string \<times> string list) list" where
  "tsPathEntries e cwd =
     (case getTsconfig e cwd of
        None \<Rightarrow> []
      | Some ts \<Rightarrow> (case tsPaths ts of None \<Rightarrow> [] | Some paths \<Rightarrow> paths))"

text \<open>An alias table whose replacement holds a replacement pattern of \<^verbatim>\<open>String.replace\<close>.\<close>

definition dollar_config :: viteConfig where
  "dollar_config =
     \<lparr>resolveAliasTable = Some [\<lparr>aliasFind = FindString ''@'', aliasReplacement = ''/srv/$&app''\<rparr>],
      root = Some ''/project''\<rparr>"

text \<open>The files that fast-glob returned in the \<^verbatim>\<open>resolveId\<close> call that left the state
  \<^term>\<open>st\<close>: the answer to the last pattern handed to it.\<close>

definition matchedFiles :: "env \<Rightarrow> pluginState \<Rightarrow> string list" where
  "matchedFiles e st = fg e (last (globbed st))"

text \<open>The invariant of the cache: the synthesizer has run at most once for a virtual
  path, and every path it has run for is cached.\<close>

definition cacheInv :: "pluginState \<Rightarrow> bool" where
  "cacheInv st = (distinct (generated st) \<and> set (generated st) \<subseteq> dom (codeCache st))"

section \<open>The glob base: source against specification\<close>

lemma indexOf_takeWhile:
  "indexOf s c = (if c \<in> set s then Some (length (takeWhile (\<lambda>x. x \<noteq> c) s)) else None)"
  by (induction s) auto

lemma length_takeWhile_conj:
  "length (takeWhile (\<lambda>x. P x \<and> Q x) xs) = min (length (takeWhile P xs)) (length (takeWhile Q xs))"
  by (induction xs) auto

lemma length_takeWhile_absent:
  "c \<notin> set s \<Longrightarrow> length (takeWhile (\<lambda>x. x \<noteq> c) s) = length s"
  by (induction s) auto

lemma firstGlobIndexLoop_min:
  "acc \<le> length pat \<Longrightarrow>
   firstGlobIndexLoop pat chs acc = min acc (length (takeWhile (\<lambda>c. c \<notin> set chs) pat))"
proof (induction chs arbitrary: acc)
  case Nil
  have tw: "takeWhile (\<lambda>c. True) pat = pat" by (induction pat) auto
  from Nil show ?case by (simp add: tw)
next
  case (Cons ch chs)
  have both: "length (takeWhile (\<lambda>c. c \<noteq> ch \<and> c \<notin> set chs) pat)
      = min (length (takeWhile (\<lambda>x. x \<noteq> ch) pat)) (length (takeWhile (\<lambda>c. c \<notin> set chs) pat))"
    by (rule length_takeWhile_conj)
  show ?case
  proof (cases "ch \<in> set pat")
    case True
    let ?i = "length (takeWhile (\<lambda>x. x \<noteq> ch) pat)"
    have i: "indexOf pat ch = Some ?i" using True by (simp add: indexOf_takeWhile)
    have le: "?i \<le> length pat" by (rule length_takeWhile_le)
    show ?thesis
      using Cons.IH [of ?i] Cons.IH [of acc] Cons.prems le
      by (simp add: i both min_def)
  next
    case False
    have i: "indexOf pat ch = None" using False by (simp add: indexOf_takeWhile)
    show ?thesis
      using Cons.IH [of acc] Cons.prems False
      by (simp add: i both length_takeWhile_absent min_def)
  qed
qed

lemma take_length_takeWhile: "take (length (takeWhile P xs)) xs = takeWhile P xs"
  by (induction xs) auto

lemma literal_prefix_take:
  "take (firstGlobIndexLoop pat globChars (length pat)) pat = literalPrefix_spec pat"
  by (simp add: firstGlobIndexLoop_min literalPrefix_spec_def take_length_takeWhile
      min_absorb2 length_takeWhile_le)

lemma beforeLast_Cons:
  "beforeLast c (x # xs) = (if c \<in> set xs then x # beforeLast c xs else [])"
proof (cases "c \<in> set xs")
  case True
  then have "dropWhile (\<lambda>y. y \<noteq> c) (rev xs @ [x]) = dropWhile (\<lambda>y. y \<noteq> c) (rev xs) @ [x]"
    by (intro dropWhile_append1 [of c]) auto
  moreover have "dropWhile (\<lambda>y. y \<noteq> c) (rev xs) \<noteq> []" using True by auto
  ultimately show ?thesis using True by (simp add: beforeLast_def)
next
  case False
  then have "dropWhile (\<lambda>y. y \<noteq> c) (rev xs @ [x]) = dropWhile (\<lambda>y. y \<noteq> c) [x]"
    by (intro dropWhile_append2) auto
  then show ?thesis using False by (simp add: beforeLast_def)
qed

lemma lastIndexOf_beforeLast:
  "lastIndexOf s c = (if c \<in> set s then Some (length (beforeLast c s)) else None)"
  by (induction s) (auto simp: beforeLast_Cons)

lemma take_beforeLast: "c \<in> set s \<Longrightarrow> take (length (beforeLast c s)) s = beforeLast c s"
  by (induction s) (auto simp: beforeLast_Cons)

text \<open>
  Claim C7. For every pattern, \<^term>\<open>getGlobBase\<close> takes the text before the first of the
  metacharacters \<^verbatim>\<open>* ? [ {\<close> (the whole pattern when none occurs) and returns that prefix up to
  and excluding its last slash, or the current-directory marker when the prefix has no
  slash; the glob base of \<^verbatim>\<open>./a/b/*.vue\<close> is \<^verbatim>\<open>./a/b\<close> and that of \<^verbatim>\<open>*.vue\<close> is the
  current-directory marker.
\<close>

theorem getGlobBase_is_globBase_spec:
  "getGlobBase pat = globBase_spec pat
   \<and> getGlobBase ''./a/b/*.vue'' = ''./a/b''
   \<and> getGlobBase ''*.vue'' = ''.''"
proof -
  have "getGlobBase p = globBase_spec p" for p
    by (simp add: getGlobBase_def globBase_spec_def Let_def literal_prefix_take
        lastIndexOf_beforeLast take_beforeLast)
  moreover have "getGlobBase ''./a/b/*.vue'' = ''./a/b''"
    by (simp add: getGlobBase_def globChars_def)
  moreover have "getGlobBase ''*.vue'' = ''.''"
    by (simp add: getGlobBase_def globChars_def)
  ultimately show ?thesis by simp
qed

section \<open>The parser\<close>

lemma pathPart_pathStart: "dotStarEnd t \<Longrightarrow> pathPart t = pathStart t"
  by (auto simp: pathPart_def pathStart_def dotStarEnd_def asciiLetter_def split: list.splits)

lemma pathPart_imp_pathStart: "pathPart t \<Longrightarrow> pathStart t"
  by (auto simp: pathPart_def pathStart_def split: list.splits if_splits)

lemma boundaryAt_Cons_0: "boundaryAt (c # cs) 0 = (c = CHR '':'' \<and> pathStart cs)"
  by (simp add: boundaryAt_def)

lemma boundaryAt_Cons_Suc: "boundaryAt (c # cs) (Suc j) = boundaryAt cs j"
  by (simp add: boundaryAt_def)

lemma pathMatchFrom_first_boundary:
  "dotStarEnd s \<Longrightarrow> boundaryAt s i \<Longrightarrow> (\<forall>j<i. \<not> boundaryAt s j) \<Longrightarrow>
   pathMatchFrom acc s = Some (acc @ take i s, drop (Suc i) s)"
proof (induction s arbitrary: acc i)
  case Nil
  then show ?case by (simp add: boundaryAt_def)
next
  case (Cons c cs)
  have dcs: "dotStarEnd cs" and nlt: "\<not> lineTerminator c"
    using Cons.prems(1) by (simp_all add: dotStarEnd_def)
  show ?case
  proof (cases i)
    case 0
    then show ?thesis
      using Cons.prems(2) dcs by (simp add: boundaryAt_Cons_0 pathPart_pathStart)
  next
    case (Suc k)
    have no0: "\<not> boundaryAt (c # cs) 0" using Cons.prems(3) Suc by blast
    have bk: "boundaryAt cs k" using Cons.prems(2) Suc by (simp add: boundaryAt_Cons_Suc)
    have nk: "\<forall>j<k. \<not> boundaryAt cs j"
    proof (intro allI impI)
      fix j assume "j < k"
      then have "Suc j < i" using Suc by simp
      then have "\<not> boundaryAt (c # cs) (Suc j)" using Cons.prems(3) by blast
      then show "\<not> boundaryAt cs j" by (simp add: boundaryAt_Cons_Suc)
    qed
    have step: "pathMatchFrom acc (c # cs) = pathMatchFrom (acc @ [c]) cs"
      using no0 nlt dcs by (auto simp: boundaryAt_Cons_0 pathPart_pathStart)
    show ?thesis
      using Cons.IH [OF dcs bk nk, of "acc @ [c]"] step Suc by simp
  qed
qed

lemma pathMatchFrom_no_boundary:
  "(\<forall>i. \<not> boundaryAt s i) \<Longrightarrow> pathMatchFrom acc s = None"
proof (induction s arbitrary: acc)
  case Nil
  then show ?case by simp
next
  case (Cons c cs)
  have no0: "\<not> boundaryAt (c # cs) 0" using Cons.prems by blast
  have rest: "\<forall>i. \<not> boundaryAt cs i"
  proof
    fix i
    have "\<not> boundaryAt (c # cs) (Suc i)" using Cons.prems by blast
    then show "\<not> boundaryAt cs i" by (simp add: boundaryAt_Cons_Suc)
  qed
  have "\<not> (c = CHR '':'' \<and> pathPart cs)"
    using no0 pathPart_imp_pathStart by (auto simp: boundaryAt_Cons_0)
  then show ?case using Cons.IH [OF rest] by simp
qed

lemma no_colon_no_boundary:
  assumes "CHR '':'' \<notin> set r"
  shows "\<not> boundaryAt r i"
proof
  assume "boundaryAt r i"
  then have "i < length r" and "r ! i = CHR '':''" by (simp_all add: boundaryAt_def)
  then have "CHR '':'' \<in> set r" by (metis nth_mem)
  with assms show False by simp
qed

text \<open>
  Claim C5 as it is stated fails on a specifier that holds a line terminator: the regular
  expression's dot matches none, so the match fails although a boundary exists. With the
  default \<^verbatim>\<open>load\<close>, the specifier \<^verbatim>\<open>dc:idle:./a\<close>, a line feed, \<^verbatim>\<open>b.vue\<close> has its first
  boundary at the colon after \<^verbatim>\<open>idle\<close>, and yet the parser returns the whole remainder as
  the pattern, with the default directive.
\<close>

theorem parseDcImport_line_terminator_counterexample:
  "boundaryAt (''idle:./a'' @ nl @ ''b.vue'') 4
   \<and> \<not> boundaryAt (''idle:./a'' @ nl @ ''b.vue'') 0
   \<and> \<not> boundaryAt (''idle:./a'' @ nl @ ''b.vue'') 1
   \<and> \<not> boundaryAt (''idle:./a'' @ nl @ ''b.vue'') 2
   \<and> \<not> boundaryAt (''idle:./a'' @ nl @ ''b.vue'') 3
   \<and> parseDcImport (DC_PREFIX @ ''idle:./a'' @ nl @ ''b.vue'') ''load''
       = \<lparr>clientDirective = Some ''client:load'', pattern = ''idle:./a'' @ nl @ ''b.vue''\<rparr>
   \<and> pattern (parseDcImport (DC_PREFIX @ ''idle:./a'' @ nl @ ''b.vue'') ''load'')
       \<noteq> drop (Suc 4) (''idle:./a'' @ nl @ ''b.vue'')"
  by (simp add: boundaryAt_def pathStart_def nl_def parseDcImport_def DC_PREFIX_def pathMatch_def
      pathPart_def dotStarEnd_def lineTerminator_def asciiLetter_def)

text \<open>
  Claim C5, amended. For every specifier that is the prefix followed by a remainder without
  a line terminator: when the remainder has a boundary (a colon immediately followed by
  \<^verbatim>\<open>./\<close>, \<^verbatim>\<open>../\<close>, \<^verbatim>\<open>/\<close>, a letter or \<^verbatim>\<open>@\<close>), the parser splits at the first one: the
  pattern is exactly the text after that colon, an empty segment before it gives no
  directive, and a non-empty segment without \<^verbatim>\<open>=\<close> gives \<^verbatim>\<open>client:\<close> followed by the
  segment; when the remainder has no boundary, the whole remainder is the pattern and the
  directive is \<^verbatim>\<open>client:\<close> followed by the configured default.
\<close>

theorem parseDcImport_boundary:
  assumes "dotStarEnd r"
  shows "(boundaryAt r i \<and> (\<forall>j<i. \<not> boundaryAt r j) \<longrightarrow>
            pattern (parseDcImport (DC_PREFIX @ r) dflt) = drop (Suc i) r
          \<and> (take i r = [] \<longrightarrow> clientDirective (parseDcImport (DC_PREFIX @ r) dflt) = None)
          \<and> (take i r \<noteq> [] \<and> CHR ''='' \<notin> set (take i r) \<longrightarrow>
                clientDirective (parseDcImport (DC_PREFIX @ r) dflt)
                  = Some (''client:'' @ take i r)))
       \<and> ((\<forall>i. \<not> boundaryAt r i) \<longrightarrow>
            parseDcImport (DC_PREFIX @ r) dflt
              = \<lparr>clientDirective = Some (''client:'' @ dflt), pattern = r\<rparr>)"
proof (intro conjI impI)
  assume b: "boundaryAt r i \<and> (\<forall>j<i. \<not> boundaryAt r j)"
  then have m: "pathMatch r = Some (take i r, drop (Suc i) r)"
    using pathMatchFrom_first_boundary [OF assms, of i "[]"] by (simp add: pathMatch_def)
  show "pattern (parseDcImport (DC_PREFIX @ r) dflt) = drop (Suc i) r"
    by (simp add: parseDcImport_def m)
  show "clientDirective (parseDcImport (DC_PREFIX @ r) dflt) = None" if "take i r = []"
    using that by (simp add: parseDcImport_def m)
  show "clientDirective (parseDcImport (DC_PREFIX @ r) dflt) = Some (''client:'' @ take i r)"
    if "take i r \<noteq> [] \<and> CHR ''='' \<notin> set (take i r)"
    using that by (simp add: parseDcImport_def m)
next
  assume "\<forall>i. \<not> boundaryAt r i"
  then have "pathMatch r = None"
    by (simp add: pathMatch_def pathMatchFrom_no_boundary)
  then show "parseDcImport (DC_PREFIX @ r) dflt
      = \<lparr>clientDirective = Some (''client:'' @ dflt), pattern = r\<rparr>"
    by (simp add: parseDcImport_def)
qed

text \<open>
  The three cases of the amended claim C5 on the documented forms, with the default
  \<^verbatim>\<open>idle\<close>: \<^verbatim>\<open>dc:load:./path/*.vue\<close> (keyword), \<^verbatim>\<open>dc::./path/*.astro\<close> (empty segment) and
  \<^verbatim>\<open>dc:./path/*.vue\<close> (no boundary).
\<close>

theorem parseDcImport_boundary_witness:
  "dotStarEnd ''load:./path/*.vue''
   \<and> boundaryAt ''load:./path/*.vue'' 4
   \<and> parseDcImport (DC_PREFIX @ ''load:./path/*.vue'') ''idle''
       = \<lparr>clientDirective = Some ''client:load'', pattern = ''./path/*.vue''\<rparr>
   \<and> boundaryAt '':./path/*.astro'' 0
   \<and> parseDcImport (DC_PREFIX @ '':./path/*.astro'') ''idle''
       = \<lparr>clientDirective = None, pattern = ''./path/*.astro''\<rparr>
   \<and> parseDcImport (DC_PREFIX @ ''./path/*.vue'') ''idle''
       = \<lparr>clientDirective = Some ''client:idle'', pattern = ''./path/*.vue''\<rparr>"
proof -
  let ?r = "''load:./path/*.vue''"
  have d1: "dotStarEnd ?r" by (simp add: dotStarEnd_def lineTerminator_def)
  have b1: "boundaryAt ?r 4" by (simp add: boundaryAt_def pathStart_def)
  have n1: "\<forall>j<4. \<not> boundaryAt ?r j"
  proof (intro allI impI)
    fix j :: nat
    assume "j < 4"
    then consider "j = 0" | "j = 1" | "j = 2" | "j = 3" by linarith
    then show "\<not> boundaryAt ?r j" by cases (simp_all add: boundaryAt_def)
  qed
  have p1: "parseDcImport (DC_PREFIX @ ?r) ''idle''
      = \<lparr>clientDirective = Some ''client:load'', pattern = ''./path/*.vue''\<rparr>"
    using parseDcImport_boundary [OF d1, of 4 "''idle''"] b1 n1 by simp
  let ?s = "'':./path/*.astro''"
  have d2: "dotStarEnd ?s" by (simp add: dotStarEnd_def lineTerminator_def)
  have b2: "boundaryAt ?s 0" by (simp add: boundaryAt_def pathStart_def)
  have p2: "parseDcImport (DC_PREFIX @ ?s) ''idle''
      = \<lparr>clientDirective = None, pattern = ''./path/*.astro''\<rparr>"
    using parseDcImport_boundary [OF d2, of 0 "''idle''"] b2 by simp
  let ?t = "''./path/*.vue''"
  have d3: "dotStarEnd ?t" by (simp add: dotStarEnd_def lineTerminator_def)
  have n3: "\<forall>i. \<not> boundaryAt ?t i" by (simp add: no_colon_no_boundary)
  have p3: "parseDcImport (DC_PREFIX @ ?t) ''idle''
      = \<lparr>clientDirective = Some ''client:idle'', pattern = ?t\<rparr>"
    using parseDcImport_boundary [OF d3, of 0 "''idle''"] n3 by simp
  show ?thesis using d1 b1 p1 b2 p2 p3 by simp
qed

text \<open>
  Claim C6 says that a directive segment with \<^verbatim>\<open>=\<close> is split once, the value being all the
  text after the first \<^verbatim>\<open>=\<close>. The code splits at every \<^verbatim>\<open>=\<close> and keeps the first two pieces:
  on \<^verbatim>\<open>dc:media=(width >= 600px):./c/*.vue\<close> the value is cut at the second \<^verbatim>\<open>=\<close>, and the
  directive is \<^verbatim>\<open>client:media="(width >"\<close> where the claim has
  \<^verbatim>\<open>client:media="(width >= 600px)"\<close>.
\<close>

theorem parseDcImport_value_cut_at_second_equals:
  "parseDcImport ''dc:media=(width >= 600px):./c/*.vue'' ''load''
     = \<lparr>clientDirective = Some ''client:media=\"(width >\"'', pattern = ''./c/*.vue''\<rparr>
   \<and> clientDirective (parseDcImport ''dc:media=(width >= 600px):./c/*.vue'' ''load'')
       \<noteq> Some ''client:media=\"(width >= 600px)\"''"
  by (simp add: parseDcImport_def DC_PREFIX_def pathMatch_def pathPart_def dotStarEnd_def
      lineTerminator_def formatKeyValue_def)

section \<open>The synthesized branches\<close>

lemma md5_project: "md5 project_env s = take 8 (sample_digest s)"
  by (simp add: md5_def project_env_def)

lemma project_relative: "path_relative project_env = posix_relative ''/project''"
  by (simp add: project_env_def)

lemmas eval_component =
  componentOf_def componentsOf_def project_relative posix_relative_def posix_resolve_def
  normalizePath_def stripExtension_def md5_project sample_digest_def checksum_def hexDigit_def
  suffix_def

lemmas eval_branches =
  conditionalRenders_def conditionalRender_def clientAttr_def selectedBranches_def
  guardLiteral_def guardOpen_def

text \<open>
  Claim C4. For every component whose file path ends in \<^verbatim>\<open>.astro\<close> and for every parsed
  directive (keyword, key and value, default, or none), the conditional render emitted for
  it carries no directive attribute: the branch is the guard, the binding name and the
  passthrough properties, and nothing else.
\<close>

theorem astro_branch_has_no_directive:
  assumes "suffix ''.astro'' file"
  shows "clientAttr directive (componentOf e baseDir file) = []
       \<and> conditionalRender directive (componentOf e baseDir file)
           = ''{ Astro.props.comp === \"'' @ compName (componentOf e baseDir file) @ ''\" && <''
               @ importName (componentOf e baseDir file) @ '' {...rest} /> }''"
proof -
  have a: "isAstro (componentOf e baseDir file)"
    using assms by (simp add: componentOf_def Let_def)
  then have "clientAttr directive (componentOf e baseDir file) = []"
    by (simp add: clientAttr_def split: option.splits)
  then show ?thesis by (simp add: conditionalRender_def)
qed

text \<open>
  Claim C4 in the example project, directive \<^verbatim>\<open>client:load\<close>: the branch of
  \<^verbatim>\<open>Star.astro\<close> has no attribute, the branch of \<^verbatim>\<open>Moon.vue\<close> beside it has one.
\<close>

theorem astro_branch_has_no_directive_witness:
  "suffix ''.astro'' ''/project/src/pages/icons/Star.astro''
   \<and> conditionalRender (Some ''client:load'')
         (componentOf project_env ''/project/src/pages/icons'' ''/project/src/pages/icons/Star.astro'')
       = ''{ Astro.props.comp === \"Star\" && <Com_b3f71d0a {...rest} /> }''
   \<and> conditionalRender (Some ''client:load'')
         (componentOf project_env ''/project/src/pages/icons'' ''/project/src/pages/icons/Moon.vue'')
       = ''{ Astro.props.comp === \"Moon\" && <Com_fffbf240 client:load {...rest} /> }''"
proof -
  have s: "suffix ''.astro'' ''/project/src/pages/icons/Star.astro''"
    by (simp add: suffix_def)
  have c: "compName (componentOf project_env ''/project/src/pages/icons''
                       ''/project/src/pages/icons/Star.astro'') = ''Star''"
    "importName (componentOf project_env ''/project/src/pages/icons''
                   ''/project/src/pages/icons/Star.astro'') = ''Com_b3f71d0a''"
    by (simp_all add: eval_component)
  have m: "conditionalRender (Some ''client:load'')
         (componentOf project_env ''/project/src/pages/icons'' ''/project/src/pages/icons/Moon.vue'')
       = ''{ Astro.props.comp === \"Moon\" && <Com_fffbf240 client:load {...rest} /> }''"
    by (simp add: eval_component eval_branches)
  show ?thesis
    using astro_branch_has_no_directive
            [OF s, of "Some ''client:load''" project_env "''/project/src/pages/icons''"] s m
    by (simp add: c)
qed








section \<open>The alias resolver: two tiers\<close>

lemma getSubstitution_no_dollar:
  "CHR ''$'' \<notin> set repl \<Longrightarrow> getSubstitution m b a repl = repl"
  by (induction m b a repl rule: getSubstitution.induct) auto

lemma replaceString_prefix:
  "prefix f p \<Longrightarrow>
   replaceString p f repl = getSubstitution f [] (drop (length f) p) repl @ drop (length f) p"
  by (cases p) (auto simp: replaceString_def)

lemma viteAliasLoop_find:
  "viteAliasLoop p aliases =
     map_option
       (\<lambda>a. replaceString p (case findSource (aliasFind a) of Some f \<Rightarrow> f | None \<Rightarrow> [])
               (aliasReplacement a))
       (List.find (viteEntryMatches p) aliases)"
  by (induction aliases) (auto simp: viteEntryMatches_def split: option.splits)

lemma tsPathsLoop_find:
  "tsPathsLoop e b p paths =
     map_option
       (\<lambda>entry. case entry of (pat, mappings) \<Rightarrow>
          path_resolve e [b, stripTrailingStar (hd mappings) @ drop (length (stripTrailingStar pat)) p])
       (List.find (tsEntryMatches p) paths)"
proof (induction paths)
  case Nil
  then show ?case by simp
next
  case (Cons entry rest)
  obtain pat mappings where entry: "entry = (pat, mappings)" by (cases entry)
  show ?case
  proof (cases mappings)
    case Nil
    then show ?thesis using Cons.IH entry by (simp add: tsEntryMatches_def Let_def)
  next
    case (Cons mapping more)
    then show ?thesis using Cons.IH entry by (simp add: tsEntryMatches_def Let_def)
  qed
qed

lemma viteTier_find:
  "viteTier p cfg =
     map_option
       (\<lambda>a. replaceString p (case findSource (aliasFind a) of Some f \<Rightarrow> f | None \<Rightarrow> [])
               (aliasReplacement a))
       (List.find (viteEntryMatches p) (viteAliases cfg))"
  by (simp add: viteTier_def viteAliases_def viteAliasLoop_find split: option.splits)

lemma tsTier_None:
  "(tsTier e p cwd = None) = (List.find (tsEntryMatches p) (tsPathEntries e cwd) = None)"
  by (simp add: tsTier_def tsPathEntries_def tsPathsLoop_find split: option.splits)

lemma tsTier_Some:
  "getTsconfig e cwd = Some ts \<Longrightarrow>
   List.find (tsEntryMatches p) (tsPathEntries e cwd) = Some (pat, m # ms) \<Longrightarrow>
   tsTier e p cwd
     = Some (path_resolve e [baseUrlResolvedOf e ts,
                             stripTrailingStar m @ drop (length (stripTrailingStar pat)) p])"
  by (simp add: tsTier_def tsPathEntries_def tsPathsLoop_find split: option.splits)

lemma stripTrailingStar_slash_star: "stripTrailingStar (k @ ''/*'') = k"
  by (simp add: stripTrailingStar_def suffix_def)

text \<open>
  Claim C8, amended. \<^term>\<open>resolveAlias\<close> looks the path up in two tiers, the build-tool
  alias table first. The first entry of the table whose \<^verbatim>\<open>find\<close> text is not empty and
  is a literal prefix of the path wins, and its replacement (one without a dollar sign)
  takes the place of the matched prefix. Only when no entry of the table matches is the
  path mapping consulted: the first entry whose pattern, with a trailing \<^verbatim>\<open>/*\<close> or \<^verbatim>\<open>*\<close>
  stripped, is a prefix of the path and which has a non-empty first target wins; only that
  first target is used, stripped the same way, and the result is resolved against the
  mapping file's base directory. The result is null exactly when neither tier has a
  matching entry.
\<close>

theorem resolveAlias_two_tiers:
  "(List.find (viteEntryMatches p) (viteAliases cfg) = Some a
      \<and> findSource (aliasFind a) = Some f \<and> CHR ''$'' \<notin> set (aliasReplacement a)
      \<longrightarrow> resolveAlias e p cfg cwd = Some (aliasReplacement a @ drop (length f) p))
   \<and> (List.find (viteEntryMatches p) (viteAliases cfg) = None
      \<and> List.find (tsEntryMatches p) (tsPathEntries e cwd) = Some (pat, m # ms)
      \<and> getTsconfig e cwd = Some ts
      \<longrightarrow> resolveAlias e p cfg cwd
            = Some (path_resolve e [baseUrlResolvedOf e ts,
                      stripTrailingStar m @ drop (length (stripTrailingStar pat)) p]))
   \<and> ((resolveAlias e p cfg cwd = None)
        = (List.find (viteEntryMatches p) (viteAliases cfg) = None
           \<and> List.find (tsEntryMatches p) (tsPathEntries e cwd) = None))
   \<and> stripTrailingStar (k @ ''/*'') = k"
proof (intro conjI impI)
  assume h: "List.find (viteEntryMatches p) (viteAliases cfg) = Some a
      \<and> findSource (aliasFind a) = Some f \<and> CHR ''$'' \<notin> set (aliasReplacement a)"
  then have "viteEntryMatches p a" by (auto simp: find_Some_iff)
  then have pf: "prefix f p" using h by (simp add: viteEntryMatches_def)
  have "viteTier p cfg = Some (replaceString p f (aliasReplacement a))"
    using h by (simp add: viteTier_find)
  then show "resolveAlias e p cfg cwd = Some (aliasReplacement a @ drop (length f) p)"
    using h pf by (simp add: resolveAlias_def replaceString_prefix getSubstitution_no_dollar)
next
  assume h: "List.find (viteEntryMatches p) (viteAliases cfg) = None
      \<and> List.find (tsEntryMatches p) (tsPathEntries e cwd) = Some (pat, m # ms)
      \<and> getTsconfig e cwd = Some ts"
  then have "viteTier p cfg = None" by (simp add: viteTier_find)
  then show "resolveAlias e p cfg cwd
      = Some (path_resolve e [baseUrlResolvedOf e ts,
                stripTrailingStar m @ drop (length (stripTrailingStar pat)) p])"
    using h tsTier_Some [of e cwd ts p pat m ms] by (simp add: resolveAlias_def)
next
  show "(resolveAlias e p cfg cwd = None)
        = (List.find (viteEntryMatches p) (viteAliases cfg) = None
           \<and> List.find (tsEntryMatches p) (tsPathEntries e cwd) = None)"
    by (cases "List.find (viteEntryMatches p) (viteAliases cfg)")
       (simp_all add: resolveAlias_def viteTier_find tsTier_None)
next
  show "stripTrailingStar (k @ ''/*'') = k" by (rule stripTrailingStar_slash_star)
qed

lemmas eval_alias =
  resolveAlias_def viteTier_def tsTier_def project_config_def dollar_config_def replaceString_def
  findSource_def project_env_def project_tsconfig_def baseUrlResolvedOf_def stripTrailingStar_def
  posix_resolve_def posix_dirname_def suffix_def

text \<open>
  Claim C8 as it is stated fails on an alias table whose first entry has an empty
  \<^verbatim>\<open>find\<close>: the empty string is a literal prefix of every path, but the code skips that
  entry and the second one wins. It also fails where the replacement holds a pattern of
  \<^verbatim>\<open>String.replace\<close>: \<^verbatim>\<open>$&\<close> is expanded to the matched text, so the replacement is not
  substituted as it stands.
\<close>

theorem resolveAlias_empty_find_counterexample:
  "resolveAliasTable project_config
     = Some [\<lparr>aliasFind = FindString [], aliasReplacement = ''/nowhere''\<rparr>,
             \<lparr>aliasFind = FindString ''@'', aliasReplacement = ''/project/src''\<rparr>]
   \<and> prefix [] ''@/components''
   \<and> resolveAlias project_env ''@/components'' (Some project_config) ''/project''
       = Some ''/project/src/components''
   \<and> resolveAlias project_env ''@/components'' (Some project_config) ''/project''
       \<noteq> Some (''/nowhere'' @ drop (length ([] :: string)) ''@/components'')
   \<and> resolveAlias project_env ''@/c'' (Some dollar_config) ''/project'' = Some ''/srv/@app/c''
   \<and> resolveAlias project_env ''@/c'' (Some dollar_config) ''/project''
       \<noteq> Some (''/srv/$&app'' @ drop (length ''@'') ''@/c'')"
  by (simp add: eval_alias)

text \<open>
  The amended claim C8 in the example project: \<^verbatim>\<open>@/components\<close> resolves through the
  alias table, \<^verbatim>\<open>~/components\<close> through the path mapping \<^verbatim>\<open>~/*\<close> to \<^verbatim>\<open>src/*\<close>, and
  \<^verbatim>\<open>x/components\<close> matches in neither tier.
\<close>

theorem resolveAlias_two_tiers_witness:
  "List.find (viteEntryMatches ''@/components'') (viteAliases (Some project_config))
     = Some \<lparr>aliasFind = FindString ''@'', aliasReplacement = ''/project/src''\<rparr>
   \<and> resolveAlias project_env ''@/components'' (Some project_config) ''/project''
       = Some ''/project/src/components''
   \<and> List.find (viteEntryMatches ''~/components'') (viteAliases (Some project_config)) = None
   \<and> List.find (tsEntryMatches ''~/components'') (tsPathEntries project_env ''/project'')
       = Some (''~/*'', [''src/*''])
   \<and> resolveAlias project_env ''~/components'' (Some project_config) ''/project''
       = Some ''/project/src/components''
   \<and> List.find (tsEntryMatches ''x/components'') (tsPathEntries project_env ''/project'') = None
   \<and> resolveAlias project_env ''x/components'' (Some project_config) ''/project'' = None"
proof -
  let ?at = "\<lparr>aliasFind = FindString ''@'', aliasReplacement = ''/project/src''\<rparr>"
  let ?ts = "\<lparr>tsPath = ''/project/tsconfig.json'', tsPaths = Some [(''~/*'', [''src/*''])],
              tsBaseUrl = None\<rparr>"
  have v1: "List.find (viteEntryMatches ''@/components'') (viteAliases (Some project_config)) = Some ?at"
    by (simp add: viteAliases_def project_config_def viteEntryMatches_def findSource_def)
  have s1: "findSource (aliasFind ?at) = Some ''@''" by (simp add: findSource_def)
  have d1: "CHR ''$'' \<notin> set (aliasReplacement ?at)" by simp
  have r1: "resolveAlias project_env ''@/components'' (Some project_config) ''/project''
      = Some ''/project/src/components''"
    using resolveAlias_two_tiers
            [where p = "''@/components''" and cfg = "Some project_config" and a = ?at
               and f = "''@''" and e = project_env and cwd = "''/project''"]
          v1 s1 d1
    by simp
  have v2: "List.find (viteEntryMatches ''~/components'') (viteAliases (Some project_config)) = None"
    by (simp add: viteAliases_def project_config_def viteEntryMatches_def findSource_def)
  have t2: "List.find (tsEntryMatches ''~/components'') (tsPathEntries project_env ''/project'')
      = Some (''~/*'', [''src/*''])"
    by (simp add: tsPathEntries_def project_env_def project_tsconfig_def tsEntryMatches_def
        stripTrailingStar_def suffix_def)
  have g2: "getTsconfig project_env ''/project'' = Some ?ts"
    by (simp add: project_env_def project_tsconfig_def)
  have r2: "resolveAlias project_env ''~/components'' (Some project_config) ''/project''
      = Some ''/project/src/components''"
    using resolveAlias_two_tiers
            [where p = "''~/components''" and cfg = "Some project_config" and e = project_env
               and cwd = "''/project''" and pat = "''~/*''" and m = "''src/*''" and ms = "[]"
               and ts = ?ts]
          v2 t2 g2
    by (simp add: baseUrlResolvedOf_def project_env_def stripTrailingStar_def suffix_def
        posix_resolve_def posix_dirname_def)
  have v3: "List.find (viteEntryMatches ''x/components'') (viteAliases (Some project_config)) = None"
    by (simp add: viteAliases_def project_config_def viteEntryMatches_def findSource_def)
  have t3: "List.find (tsEntryMatches ''x/components'') (tsPathEntries project_env ''/project'') = None"
    by (simp add: tsPathEntries_def project_env_def project_tsconfig_def tsEntryMatches_def
        stripTrailingStar_def suffix_def)
  have r3: "resolveAlias project_env ''x/components'' (Some project_config) ''/project'' = None"
    using resolveAlias_two_tiers
            [where p = "''x/components''" and cfg = "Some project_config" and e = project_env
               and cwd = "''/project''"]
          v3 t3
    by simp
  show ?thesis using v1 r1 v2 t2 r2 t3 r3 by simp
qed

section \<open>Identities, the cache and the failures of the hooks\<close>

lemma relativePaths_mset:
  "mset fs1 = mset fs2 \<Longrightarrow> relativePaths e s fs1 = relativePaths e s fs2"
proof -
  assume m: "mset fs1 = mset fs2"
  let ?g = "\<lambda>f. normalizePath (path_relative e s f)"
  have "mset (sort (map ?g fs2)) = mset (map ?g fs1)" using m by (metis mset_map mset_sort)
  then have "sort (map ?g fs1) = sort (map ?g fs2)"
    by (rule properties_for_sort) simp
  then show ?thesis by (simp add: relativePaths_def)
qed

lemma virtualFilePathOf_same_set:
  assumes "set fs1 = set fs2" and "distinct fs1" and "distinct fs2"
    and "md5_hex e1 = md5_hex e2" and "path_relative e1 = path_relative e2"
    and "path_resolve e1 = path_resolve e2"
  shows "virtualFilePathOf e1 r s fs1 = virtualFilePathOf e2 r s fs2"
proof -
  have m: "mset fs1 = mset fs2"
    using assms(1-3) by (simp add: set_eq_iff_mset_eq_distinct)
  have "relativePaths e1 (path_resolve e1 [r, s]) fs1 = relativePaths e1 (path_resolve e1 [r, s]) fs2"
    using m by (rule relativePaths_mset)
  moreover have "relativePaths e1 x fs2 = relativePaths e2 x fs2" for x
    by (simp add: relativePaths_def assms(5))
  ultimately show ?thesis
    by (simp add: virtualFilePathOf_def Let_def md5_def assms(4,6))
qed

lemma fst_synthesize:
  "fst (synthesize e opts st parsed bd files)
     = (if files = [] then None
        else Some (virtualFilePathOf e (projectRoot st) (srcDirOf opts) files))"
  by (simp add: synthesize_def Let_def)

lemma globbed_warn: "globbed (warn msg st) = globbed st"
  by (simp add: warn_def)

lemma globbed_synthesize: "globbed (snd (synthesize e opts st parsed bd files)) = globbed st"
  by (simp add: synthesize_def Let_def warn_def)

lemma resolveId_Some:
  assumes "fst (resolveId e opts st src imp) = Some v"
  shows "v = virtualFilePathOf e (projectRoot st) (srcDirOf opts)
               (matchedFiles e (snd (resolveId e opts st src imp)))"
  using assms
  by (auto simp: resolveId_def Let_def matchedFiles_def fst_synthesize globbed_synthesize
           split: if_splits option.splits prod.splits)

lemma cacheInv_synthesize:
  "cacheInv st \<Longrightarrow> cacheInv (snd (synthesize e opts st parsed bd files))"
  by (auto simp: cacheInv_def synthesize_def Let_def warn_def)

lemma cacheInv_resolveId:
  "cacheInv st \<Longrightarrow> cacheInv (snd (resolveId e opts st src imp))"
proof -
  assume i: "cacheInv st"
  have g: "cacheInv (st\<lparr>globbed := x\<rparr>)" for x using i by (simp add: cacheInv_def)
  have w: "cacheInv (warn m st)" for m using i by (simp add: cacheInv_def warn_def)
  show ?thesis
    by (auto simp: resolveId_def Let_def i w g cacheInv_synthesize
             split: if_splits option.splits prod.splits)
qed

lemma cacheInv_load: "cacheInv st \<Longrightarrow> cacheInv (snd (load e st ident))"
  by (auto simp: cacheInv_def load_def Let_def warn_def split: option.splits)

lemma cacheInv_hook: "cacheInv st \<Longrightarrow> cacheInv (hook opts st ec)"
  by (cases ec; cases "snd ec")
     (auto simp: hook_def cacheInv_resolveId cacheInv_load,
      simp add: cacheInv_def configResolved_def)

lemma cacheInv_foldl: "cacheInv st \<Longrightarrow> cacheInv (foldl (hook opts) st calls)"
  by (induction calls arbitrary: st) (simp_all add: cacheInv_hook)

lemma cacheInv_build: "cacheInv (build opts e0 calls)"
proof -
  have "cacheInv (createDynamicComponentVitePlugin e0)"
    by (simp add: cacheInv_def createDynamicComponentVitePlugin_def)
  then show ?thesis unfolding build_def by (rule cacheInv_foldl)
qed

lemma distinct_count_le_1: "distinct xs \<Longrightarrow> count_list xs x \<le> 1"
  by (induction xs) (auto simp: count_list_0_iff)

lemma cache_kept_synthesize:
  "codeCache st v \<noteq> None \<Longrightarrow> codeCache (snd (synthesize e opts st parsed bd files)) v \<noteq> None"
  by (auto simp: synthesize_def Let_def warn_def)

lemma cache_kept_resolveId:
  "codeCache st v \<noteq> None \<Longrightarrow> codeCache (snd (resolveId e opts st src imp)) v \<noteq> None"
proof -
  assume c: "codeCache st v \<noteq> None"
  have g: "codeCache (st\<lparr>globbed := x\<rparr>) v \<noteq> None" for x using c by simp
  show ?thesis
    using c cache_kept_synthesize [OF g]
    by (auto simp: resolveId_def Let_def warn_def split: if_splits option.splits prod.splits)
qed

lemma cache_kept_hook:
  "codeCache st v \<noteq> None \<Longrightarrow> codeCache (hook opts st ec) v \<noteq> None"
  by (cases ec; cases "snd ec")
     (auto simp: hook_def cache_kept_resolveId configResolved_def load_def Let_def warn_def
           split: option.splits)

lemma cache_kept_foldl:
  "codeCache st v \<noteq> None \<Longrightarrow> codeCache (foldl (hook opts) st calls) v \<noteq> None"
proof (induction calls arbitrary: st)
  case Nil
  then show ?case by simp
next
  case (Cons a calls)
  have "codeCache (hook opts st a) v \<noteq> None" using Cons.prems by (rule cache_kept_hook)
  then have "codeCache (foldl (hook opts) (hook opts st a) calls) v \<noteq> None" by (rule Cons.IH)
  then show ?case by simp
qed

lemma cache_hit_synthesize:
  "codeCache st v \<noteq> None \<Longrightarrow> fst (synthesize e opts st parsed bd files) = Some v \<Longrightarrow>
   generated (snd (synthesize e opts st parsed bd files)) = generated st
   \<and> codeCache (snd (synthesize e opts st parsed bd files)) = codeCache st"
  by (auto simp: synthesize_def Let_def split: if_splits)

lemma cache_hit_resolveId:
  assumes "codeCache st v \<noteq> None" and "fst (resolveId e opts st src imp) = Some v"
  shows "generated (snd (resolveId e opts st src imp)) = generated st
       \<and> codeCache (snd (resolveId e opts st src imp)) = codeCache st"
proof -
  have g: "codeCache (st\<lparr>globbed := x\<rparr>) v \<noteq> None" for x using assms(1) by simp
  show ?thesis
    using assms(2) cache_hit_synthesize [OF g]
    by (auto simp: resolveId_def Let_def split: if_splits option.splits prod.splits)
qed

lemma cached_after_synthesize:
  "fst (synthesize e opts st parsed bd files) = Some v \<Longrightarrow>
   codeCache (snd (synthesize e opts st parsed bd files)) v \<noteq> None"
  by (auto simp: synthesize_def Let_def split: if_splits)

lemma resolveId_Some_synthesize:
  "fst (resolveId e opts st src imp) = Some v \<Longrightarrow>
   \<exists>parsed bd rp.
     resolveId e opts st src imp
       = synthesize e opts (st\<lparr>globbed := globbed st @ [rp]\<rparr>) parsed bd (fg e rp)"
  by (auto simp: resolveId_def Let_def split: if_splits option.splits prod.splits)

lemma cached_after_resolveId:
  assumes "fst (resolveId e opts st src imp) = Some v"
  shows "codeCache (snd (resolveId e opts st src imp)) v \<noteq> None"
proof -
  obtain parsed bd rp where
    r: "resolveId e opts st src imp
          = synthesize e opts (st\<lparr>globbed := globbed st @ [rp]\<rparr>) parsed bd (fg e rp)"
    using resolveId_Some_synthesize [OF assms] by blast
  show ?thesis
    using assms unfolding r by (rule cached_after_synthesize)
qed

text \<open>
  Claim C2. Take two \<^verbatim>\<open>resolveId\<close> calls of one plugin instance (the same options and
  project root, the same digest and path functions) that both return an identity. When
  fast-glob returned the same set of files to both, in whatever order, the two identities
  are equal; the directive plays no part in it. In every build, started from the empty
  cache, \<^verbatim>\<open>generateVirtualAstroComponent\<close> is called at most once for an identity: once
  \<^verbatim>\<open>resolveId\<close> has returned an identity, the cache holds it through all later hook calls,
  and a resolution that returns a cached identity calls no synthesizer and leaves the cache
  as it is.
\<close>

theorem same_files_same_identity:
  "(md5_hex ea = md5_hex eb \<and> path_relative ea = path_relative eb
      \<and> path_resolve ea = path_resolve eb \<and> projectRoot sa = projectRoot sb
      \<and> fst (resolveId ea opts sa srca impa) = Some va
      \<and> fst (resolveId eb opts sb srcb impb) = Some vb
      \<and> set (matchedFiles ea (snd (resolveId ea opts sa srca impa)))
          = set (matchedFiles eb (snd (resolveId eb opts sb srcb impb)))
      \<and> distinct (matchedFiles ea (snd (resolveId ea opts sa srca impa)))
      \<and> distinct (matchedFiles eb (snd (resolveId eb opts sb srcb impb)))
      \<longrightarrow> va = vb)
   \<and> count_list (generated (build opts e0 calls)) v \<le> 1
   \<and> (fst (resolveId e opts st src imp) = Some v
      \<longrightarrow> codeCache (foldl (hook opts) (snd (resolveId e opts st src imp)) later) v \<noteq> None)
   \<and> (codeCache st v \<noteq> None \<and> fst (resolveId e opts st src imp) = Some v
      \<longrightarrow> generated (snd (resolveId e opts st src imp)) = generated st
          \<and> codeCache (snd (resolveId e opts st src imp)) = codeCache st)"
proof (intro conjI impI)
  assume h: "md5_hex ea = md5_hex eb \<and> path_relative ea = path_relative eb
      \<and> path_resolve ea = path_resolve eb \<and> projectRoot sa = projectRoot sb
      \<and> fst (resolveId ea opts sa srca impa) = Some va
      \<and> fst (resolveId eb opts sb srcb impb) = Some vb
      \<and> set (matchedFiles ea (snd (resolveId ea opts sa srca impa)))
          = set (matchedFiles eb (snd (resolveId eb opts sb srcb impb)))
      \<and> distinct (matchedFiles ea (snd (resolveId ea opts sa srca impa)))
      \<and> distinct (matchedFiles eb (snd (resolveId eb opts sb srcb impb)))"
  have "va = virtualFilePathOf ea (projectRoot sa) (srcDirOf opts)
               (matchedFiles ea (snd (resolveId ea opts sa srca impa)))"
    using h resolveId_Some by blast
  moreover have "vb = virtualFilePathOf eb (projectRoot sb) (srcDirOf opts)
               (matchedFiles eb (snd (resolveId eb opts sb srcb impb)))"
    using h resolveId_Some by blast
  ultimately show "va = vb"
    using h virtualFilePathOf_same_set by metis
next
  show "count_list (generated (build opts e0 calls)) v \<le> 1"
  proof -
    have "distinct (generated (build opts e0 calls))"
      using cacheInv_build [of opts e0 calls] by (simp add: cacheInv_def)
    then show ?thesis by (rule distinct_count_le_1)
  qed
next
  assume "fst (resolveId e opts st src imp) = Some v"
  then show "codeCache (foldl (hook opts) (snd (resolveId e opts st src imp)) later) v \<noteq> None"
    by (intro cache_kept_foldl cached_after_resolveId)
next
  assume h: "codeCache st v \<noteq> None \<and> fst (resolveId e opts st src imp) = Some v"
  then show "generated (snd (resolveId e opts st src imp)) = generated st"
    using cache_hit_resolveId by blast
  from h show "codeCache (snd (resolveId e opts st src imp)) = codeCache st"
    using cache_hit_resolveId by blast
qed

lemmas eval_parse =
  parseDcImport_def DC_PREFIX_def pathMatch_def pathPart_def dotStarEnd_def lineTerminator_def
  asciiLetter_def formatKeyValue_def

lemmas eval_posix =
  posix_dirname_def posix_join_def posix_normalize_def posix_resolve_def posix_relative_def
  posix_basename_def

lemma project_fields:
  "path_dirname project_env = posix_dirname"
  "path_join project_env = posix_join"
  "path_resolve project_env = posix_resolve ''/project''"
  "path_basename project_env = posix_basename"
  "fg project_env = project_fg"
  "getTsconfig project_env = project_tsconfig"
  "process_cwd project_env = ''/project''"
  "md5_hex project_env = sample_digest"
  by (simp_all add: project_env_def)

lemma project_state_fields:
  "projectRoot project_state = ''/project''"
  "viteConfig project_state = Some project_config"
  "codeCache project_state = Map.empty"
  "warned project_state = []"
  "globbed project_state = []"
  "generated project_state = []"
  by (simp_all add: project_state_def configResolved_def createDynamicComponentVitePlugin_def
      project_config_def)

lemma project_options_fields:
  "defaultClientDirectiveOf project_options = ''load''"
  "srcDirOf project_options = ''/project/src''"
  "optLogger project_options = False"
  by (simp_all add: project_options_def defaultClientDirectiveOf_def srcDirOf_def)

lemma parse_shared:
  "parseDcImport ''dc:load:./shared/*.jsx'' ''load''
     = \<lparr>clientDirective = Some ''client:load'', pattern = ''./shared/*.jsx''\<rparr>"
  "parseDcImport ''dc:idle:./shared/*.jsx'' ''load''
     = \<lparr>clientDirective = Some ''client:idle'', pattern = ''./shared/*.jsx''\<rparr>"
  "parseDcImport ''dc:load:./shared/?.jsx'' ''load''
     = \<lparr>clientDirective = Some ''client:load'', pattern = ''./shared/?.jsx''\<rparr>"
  by (simp_all add: eval_parse)

lemma dirname_pages:
  "posix_dirname ''/project/src/pages/a.astro'' = ''/project/src/pages''"
  "posix_dirname ''/project/src/pages/b.astro'' = ''/project/src/pages''"
  by (simp_all add: posix_dirname_def)

lemma globBase_shared:
  "getGlobBase ''./shared/*.jsx'' = ''./shared''"
  "getGlobBase ''./shared/?.jsx'' = ''./shared''"
  by (simp_all add: getGlobBase_def globChars_def)

lemma join_shared:
  "posix_join ''/project/src/pages'' ''./shared'' = ''/project/src/pages/shared''"
  "posix_join ''/project/src/pages'' ''./shared/*.jsx'' = ''/project/src/pages/shared/*.jsx''"
  "posix_join ''/project/src/pages'' ''./shared/?.jsx'' = ''/project/src/pages/shared/?.jsx''"
  by (simp_all add: posix_join_def posix_normalize_def)

lemma fg_shared:
  "project_fg ''/project/src/pages/shared/*.jsx''
     = [''/project/src/pages/shared/B.jsx'', ''/project/src/pages/shared/A.jsx'']"
  "project_fg ''/project/src/pages/shared/?.jsx''
     = [''/project/src/pages/shared/A.jsx'', ''/project/src/pages/shared/B.jsx'']"
  by (simp_all add: project_fg_def)

lemma resolveId_relative:
  assumes "prefix DC_PREFIX src" and "imp \<noteq> []"
    and "\<not> isPathAlias (pattern (parseDcImport src (defaultClientDirectiveOf opts)))"
  shows "resolveId e opts st src (Some imp)
     = synthesize e opts
         (st\<lparr>globbed := globbed st @
            [normalizePath (path_join e (path_dirname e imp)
               (pattern (parseDcImport src (defaultClientDirectiveOf opts))))]\<rparr>)
         (parseDcImport src (defaultClientDirectiveOf opts))
         (path_join e (path_dirname e imp)
            (getGlobBase (pattern (parseDcImport src (defaultClientDirectiveOf opts)))))
         (fg e (normalizePath (path_join e (path_dirname e imp)
            (pattern (parseDcImport src (defaultClientDirectiveOf opts))))))"
  using assms by (simp add: resolveId_def resolveBase_def Let_def)

lemma relative_shared:
  "posix_relative ''/project'' ''/project/src'' ''/project/src/pages/shared/A.jsx'' = ''pages/shared/A.jsx''"
  "posix_relative ''/project'' ''/project/src'' ''/project/src/pages/shared/B.jsx'' = ''pages/shared/B.jsx''"
  by (simp_all add: posix_relative_def posix_resolve_def)

lemma resolve_src: "posix_resolve ''/project'' [''/project'', ''/project/src''] = ''/project/src''"
  by (simp add: posix_resolve_def)

lemma sorted_shared:
  "sort [''pages/shared/B.jsx'', ''pages/shared/A.jsx''] = [''pages/shared/A.jsx'', ''pages/shared/B.jsx'']"
  "sort [''pages/shared/A.jsx'', ''pages/shared/B.jsx''] = [''pages/shared/A.jsx'', ''pages/shared/B.jsx'']"
  by simp_all

lemma digest_shared:
  "take 8 (sample_digest ''pages/shared/A.jsx,pages/shared/B.jsx'') = ''a256b426''"
  by (simp add: sample_digest_def checksum_def hexDigit_def)

lemma resolve_virtual:
  "posix_resolve ''/project'' [''/project'', ''/project/src'', ''_generate_'', ''_virtual_dc_a256b426.astro'']
     = ''/project/src/_generate_/_virtual_dc_a256b426.astro''"
  by (simp add: posix_resolve_def)

lemma virtual_shared:
  "virtualFilePathOf project_env ''/project'' ''/project/src''
     [''/project/src/pages/shared/B.jsx'', ''/project/src/pages/shared/A.jsx'']
     = ''/project/src/_generate_/_virtual_dc_a256b426.astro''"
  "virtualFilePathOf project_env ''/project'' ''/project/src''
     [''/project/src/pages/shared/A.jsx'', ''/project/src/pages/shared/B.jsx'']
     = ''/project/src/_generate_/_virtual_dc_a256b426.astro''"
  by (simp_all add: virtualFilePathOf_def relativePaths_def project_fields project_relative
      relative_shared resolve_src normalizePath_def sorted_shared md5_def digest_shared
      resolve_virtual)

lemma snd_synthesize_fields:
  "projectRoot (snd (synthesize e opts st parsed bd files)) = projectRoot st"
  "viteConfig (snd (synthesize e opts st parsed bd files)) = viteConfig st"
  "generated (snd (synthesize e opts st parsed bd files))
     = (if files \<noteq> [] \<and> codeCache st (virtualFilePathOf e (projectRoot st) (srcDirOf opts) files) = None
        then generated st @ [virtualFilePathOf e (projectRoot st) (srcDirOf opts) files]
        else generated st)"
  "codeCache (snd (synthesize e opts st parsed bd files))
     = (if files \<noteq> [] \<and> codeCache st (virtualFilePathOf e (projectRoot st) (srcDirOf opts) files) = None
        then (codeCache st)
               (virtualFilePathOf e (projectRoot st) (srcDirOf opts) files \<mapsto>
                generateVirtualAstroComponent e (pattern parsed) bd (clientDirective parsed)
                  (componentsOf e bd files) (isPathAlias (pattern parsed))
                  (path_resolve e [projectRoot st, srcDirOf opts]))
        else codeCache st)"
  by (simp_all add: synthesize_def Let_def warn_def)

lemma not_alias_shared:
  "\<not> isPathAlias ''./shared/*.jsx''" "\<not> isPathAlias ''./shared/?.jsx''"
  by (simp_all add: isPathAlias_def)

lemma dc_prefix_shared:
  "prefix DC_PREFIX ''dc:load:./shared/*.jsx''"
  "prefix DC_PREFIX ''dc:idle:./shared/*.jsx''"
  "prefix DC_PREFIX ''dc:load:./shared/?.jsx''"
  by (simp_all add: DC_PREFIX_def)

lemma resolveId_shared:
  "projectRoot st = ''/project'' \<Longrightarrow>
   resolveId project_env project_options st ''dc:load:./shared/*.jsx'' (Some ''/project/src/pages/a.astro'')
     = synthesize project_env project_options
         (st\<lparr>globbed := globbed st @ [''/project/src/pages/shared/*.jsx'']\<rparr>)
         \<lparr>clientDirective = Some ''client:load'', pattern = ''./shared/*.jsx''\<rparr>
         ''/project/src/pages/shared''
         [''/project/src/pages/shared/B.jsx'', ''/project/src/pages/shared/A.jsx'']"
  "projectRoot st = ''/project'' \<Longrightarrow>
   resolveId project_env project_options st ''dc:idle:./shared/*.jsx'' (Some ''/project/src/pages/b.astro'')
     = synthesize project_env project_options
         (st\<lparr>globbed := globbed st @ [''/project/src/pages/shared/*.jsx'']\<rparr>)
         \<lparr>clientDirective = Some ''client:idle'', pattern = ''./shared/*.jsx''\<rparr>
         ''/project/src/pages/shared''
         [''/project/src/pages/shared/B.jsx'', ''/project/src/pages/shared/A.jsx'']"
  "projectRoot st = ''/project'' \<Longrightarrow>
   resolveId project_env project_options st ''dc:load:./shared/?.jsx'' (Some ''/project/src/pages/b.astro'')
     = synthesize project_env project_options
         (st\<lparr>globbed := globbed st @ [''/project/src/pages/shared/?.jsx'']\<rparr>)
         \<lparr>clientDirective = Some ''client:load'', pattern = ''./shared/?.jsx''\<rparr>
         ''/project/src/pages/shared''
         [''/project/src/pages/shared/A.jsx'', ''/project/src/pages/shared/B.jsx'']"
  by (simp_all add: resolveId_relative dc_prefix_shared project_options_fields parse_shared
      not_alias_shared project_fields dirname_pages globBase_shared join_shared fg_shared
      normalizePath_def)



text \<open>
  Claim C2 in the example project: \<^verbatim>\<open>./shared/*.jsx\<close> lists \<^verbatim>\<open>B.jsx\<close> before \<^verbatim>\<open>A.jsx\<close>,
  \<^verbatim>\<open>./shared/?.jsx\<close> lists them the other way round; both resolve to one identity, and
  after the second resolution the synthesizer has run once.
\<close>

theorem same_files_same_identity_witness:
  "matchedFiles project_env
     (snd (resolveId project_env project_options project_state
             ''dc:load:./shared/*.jsx'' (Some ''/project/src/pages/a.astro'')))
     = [''/project/src/pages/shared/B.jsx'', ''/project/src/pages/shared/A.jsx'']
   \<and> matchedFiles project_env
     (snd (resolveId project_env project_options
             (snd (resolveId project_env project_options project_state
                     ''dc:load:./shared/*.jsx'' (Some ''/project/src/pages/a.astro'')))
             ''dc:load:./shared/?.jsx'' (Some ''/project/src/pages/b.astro'')))
     = [''/project/src/pages/shared/A.jsx'', ''/project/src/pages/shared/B.jsx'']
   \<and> fst (resolveId project_env project_options project_state
             ''dc:load:./shared/*.jsx'' (Some ''/project/src/pages/a.astro''))
     = Some ''/project/src/_generate_/_virtual_dc_a256b426.astro''
   \<and> fst (resolveId project_env project_options
             (snd (resolveId project_env project_options project_state
                     ''dc:load:./shared/*.jsx'' (Some ''/project/src/pages/a.astro'')))
             ''dc:load:./shared/?.jsx'' (Some ''/project/src/pages/b.astro''))
     = Some ''/project/src/_generate_/_virtual_dc_a256b426.astro''
   \<and> generated
         (snd (resolveId project_env project_options
             (snd (resolveId project_env project_options project_state
                     ''dc:load:./shared/*.jsx'' (Some ''/project/src/pages/a.astro'')))
             ''dc:load:./shared/?.jsx'' (Some ''/project/src/pages/b.astro'')))
     = [''/project/src/_generate_/_virtual_dc_a256b426.astro'']"
proof -
  let ?v = "''/project/src/_generate_/_virtual_dc_a256b426.astro''"
  let ?c1 = "resolveId project_env project_options project_state
               ''dc:load:./shared/*.jsx'' (Some ''/project/src/pages/a.astro'')"
  let ?c2 = "resolveId project_env project_options (snd ?c1)
               ''dc:load:./shared/?.jsx'' (Some ''/project/src/pages/b.astro'')"
  have f1: "fst ?c1 = Some ?v"
    by (simp add: resolveId_shared project_state_fields fst_synthesize project_options_fields
        virtual_shared)
  have root1: "projectRoot (snd ?c1) = ''/project''"
    by (simp add: resolveId_shared project_state_fields snd_synthesize_fields)
  have m1: "matchedFiles project_env (snd ?c1)
      = [''/project/src/pages/shared/B.jsx'', ''/project/src/pages/shared/A.jsx'']"
    by (simp add: matchedFiles_def resolveId_shared project_state_fields globbed_synthesize
        project_fields fg_shared)
  have m2: "matchedFiles project_env (snd ?c2)
      = [''/project/src/pages/shared/A.jsx'', ''/project/src/pages/shared/B.jsx'']"
    by (simp add: matchedFiles_def resolveId_shared(3) [OF root1] globbed_synthesize
        project_fields fg_shared)
  have some2: "fst ?c2 = Some (virtualFilePathOf project_env ''/project'' ''/project/src''
      [''/project/src/pages/shared/A.jsx'', ''/project/src/pages/shared/B.jsx''])"
    by (simp add: resolveId_shared(3) [OF root1] fst_synthesize root1 project_options_fields)
  have gen1: "generated (snd ?c1) = [?v]"
    by (simp add: resolveId_shared project_state_fields snd_synthesize_fields
        project_options_fields virtual_shared)
  note inst = same_files_same_identity
      [where ea = project_env and eb = project_env and opts = project_options
         and sa = project_state and sb = "snd ?c1"
         and srca = "''dc:load:./shared/*.jsx''" and impa = "Some ''/project/src/pages/a.astro''"
         and srcb = "''dc:load:./shared/?.jsx''" and impb = "Some ''/project/src/pages/b.astro''"
         and va = ?v
         and vb = "virtualFilePathOf project_env ''/project'' ''/project/src''
                        [''/project/src/pages/shared/A.jsx'', ''/project/src/pages/shared/B.jsx'']"
         and e = project_env and st = "snd ?c1"
         and src = "''dc:load:./shared/?.jsx''" and imp = "Some ''/project/src/pages/b.astro''"
         and v = ?v and later = "[]"]
  have same: "?v = virtualFilePathOf project_env ''/project'' ''/project/src''
                        [''/project/src/pages/shared/A.jsx'', ''/project/src/pages/shared/B.jsx'']"
    using inst f1 some2 m1 m2 root1 by (auto simp: project_state_fields)
  have f2: "fst ?c2 = Some ?v" using some2 same by simp
  have cached: "codeCache (snd ?c1) ?v \<noteq> None"
    using f1 by (rule cached_after_resolveId)
  have gen2: "generated (snd ?c2) = [?v]"
    using inst cached f2 gen1 by simp
  show ?thesis using m1 m2 f1 f2 gen2 by simp
qed

lemma warn_fields:
  "codeCache (warn msg st) = codeCache st"
  "warned (warn msg st) = warned st @ [msg]"
  "generated (warn msg st) = generated st"
  by (simp_all add: warn_def)

text \<open>
  Claim C9. No failure throws, and each is answered for the one specifier. A specifier
  without the prefix: \<^verbatim>\<open>resolveId\<close> returns null and leaves the state as it is, with no
  warning. A prefixed specifier without importer, with an alias that does not resolve, or
  with an empty match set: \<^verbatim>\<open>resolveId\<close> returns null and warns. \<^verbatim>\<open>load\<close> of a virtual
  identity that has no cached text: null, and a warning. A warning appends one message and
  leaves the cache untouched.
\<close>

theorem failures_decline_with_warning:
  "(\<not> prefix DC_PREFIX src \<longrightarrow> resolveId e opts st src imp = (None, st))
   \<and> (prefix DC_PREFIX src \<and> (imp = None \<or> imp = Some [])
      \<longrightarrow> resolveId e opts st src imp
            = (None, warn (''[dynamic-component] Cannot resolve \"'' @ src
                             @ ''\" without importer'') st))
   \<and> (prefix DC_PREFIX src \<and> i \<noteq> []
        \<and> isPathAlias (pattern (parseDcImport src (defaultClientDirectiveOf opts)))
        \<and> (resolveAlias e
              (getGlobBase (pattern (parseDcImport src (defaultClientDirectiveOf opts))))
              (viteConfig st) (projectRoot st) = None
            \<or> resolveAlias e
              (getGlobBase (pattern (parseDcImport src (defaultClientDirectiveOf opts))))
              (viteConfig st) (projectRoot st) = Some [])
      \<longrightarrow> resolveId e opts st src (Some i)
            = (None, warn (''[dynamic-component] Cannot resolve path alias \"''
                 @ getGlobBase (pattern (parseDcImport src (defaultClientDirectiveOf opts)))
                 @ ''\".'') st))
   \<and> (prefix DC_PREFIX src \<and> i \<noteq> []
        \<and> resolveBase e st (pattern (parseDcImport src (defaultClientDirectiveOf opts))) i
            = Some (bd, rp)
        \<and> fg e rp = []
      \<longrightarrow> resolveId e opts st src (Some i)
            = (None, warn (''[dynamic-component] No files matched for pattern \"''
                 @ pattern (parseDcImport src (defaultClientDirectiveOf opts)) @ ''\"'')
                 (st\<lparr>globbed := globbed st @ [rp]\<rparr>)))
   \<and> (prefix ''_virtual_dc_'' (path_basename e ident) \<and> suffix ''.astro'' (path_basename e ident)
        \<and> codeCache st ident = None
      \<longrightarrow> load e st ident
            = (None, warn (''[dynamic-component] Code not found in cache for '' @ ident) st))
   \<and> codeCache (warn msg st) = codeCache st
   \<and> warned (warn msg st) = warned st @ [msg]"
proof (intro conjI impI)
  show "resolveId e opts st src imp = (None, st)" if "\<not> prefix DC_PREFIX src"
    using that by (simp add: resolveId_def)
  show "resolveId e opts st src imp
      = (None, warn (''[dynamic-component] Cannot resolve \"'' @ src
                       @ ''\" without importer'') st)"
    if "prefix DC_PREFIX src \<and> (imp = None \<or> imp = Some [])"
    using that by (auto simp: resolveId_def)
  show "resolveId e opts st src (Some i)
      = (None, warn (''[dynamic-component] Cannot resolve path alias \"''
           @ getGlobBase (pattern (parseDcImport src (defaultClientDirectiveOf opts)))
           @ ''\".'') st)"
    if "prefix DC_PREFIX src \<and> i \<noteq> []
        \<and> isPathAlias (pattern (parseDcImport src (defaultClientDirectiveOf opts)))
        \<and> (resolveAlias e
              (getGlobBase (pattern (parseDcImport src (defaultClientDirectiveOf opts))))
              (viteConfig st) (projectRoot st) = None
            \<or> resolveAlias e
              (getGlobBase (pattern (parseDcImport src (defaultClientDirectiveOf opts))))
              (viteConfig st) (projectRoot st) = Some [])"
  proof -
    have "resolveBase e st (pattern (parseDcImport src (defaultClientDirectiveOf opts))) i = None"
      using that by (auto simp: resolveBase_def Let_def)
    then show ?thesis using that by (simp add: resolveId_def Let_def)
  qed
  show "resolveId e opts st src (Some i)
      = (None, warn (''[dynamic-component] No files matched for pattern \"''
           @ pattern (parseDcImport src (defaultClientDirectiveOf opts)) @ ''\"'')
           (st\<lparr>globbed := globbed st @ [rp]\<rparr>))"
    if "prefix DC_PREFIX src \<and> i \<noteq> []
        \<and> resolveBase e st (pattern (parseDcImport src (defaultClientDirectiveOf opts))) i
            = Some (bd, rp)
        \<and> fg e rp = []"
    using that by (simp add: resolveId_def Let_def synthesize_def)
  show "load e st ident
      = (None, warn (''[dynamic-component] Code not found in cache for '' @ ident) st)"
    if "prefix ''_virtual_dc_'' (path_basename e ident) \<and> suffix ''.astro'' (path_basename e ident)
        \<and> codeCache st ident = None"
    using that by (simp add: load_def Let_def)
  show "codeCache (warn msg st) = codeCache st" by (simp add: warn_def)
  show "warned (warn msg st) = warned st @ [msg]" by (simp add: warn_def)
qed


lemma parse_failures:
  "parseDcImport ''dc:load:nowhere/*.vue'' ''load''
     = \<lparr>clientDirective = Some ''client:load'', pattern = ''nowhere/*.vue''\<rparr>"
  "parseDcImport ''dc:load:/components/*.vue'' ''load''
     = \<lparr>clientDirective = Some ''client:load'', pattern = ''/components/*.vue''\<rparr>"
  by (simp_all add: eval_parse)

lemma globBase_failures:
  "getGlobBase ''nowhere/*.vue'' = ''nowhere''"
  "getGlobBase ''/components/*.vue'' = ''/components''"
  by (simp_all add: getGlobBase_def globChars_def)

lemma alias_nowhere:
  "resolveAlias project_env ''nowhere'' (Some project_config) ''/project'' = None"
  by (simp add: eval_alias)

lemma dirname_index:
  "posix_dirname ''/project/src/pages/index.astro'' = ''/project/src/pages''"
  by (simp add: posix_dirname_def)

lemma join_components:
  "posix_join ''/project/src/pages'' ''/components'' = ''/project/src/pages/components''"
  "posix_join ''/project/src/pages'' ''/components/*.vue'' = ''/project/src/pages/components/*.vue''"
  by (simp_all add: posix_join_def posix_normalize_def)

lemma fg_pages_components: "project_fg ''/project/src/pages/components/*.vue'' = []"
  by (simp add: project_fg_def)

text \<open>
  Claim C9 in the example project: the five failures, each with its result and its
  warning.
\<close>

theorem failures_decline_with_warning_witness:
  "resolveId project_env project_options project_state ''./x.vue''
       (Some ''/project/src/pages/index.astro'')
     = (None, project_state)
   \<and> fst (resolveId project_env project_options project_state ''dc:load:./shared/*.jsx'' None)
       = None
   \<and> warned (snd (resolveId project_env project_options project_state
                     ''dc:load:./shared/*.jsx'' None))
       = [''[dynamic-component] Cannot resolve \"dc:load:./shared/*.jsx\" without importer'']
   \<and> fst (resolveId project_env project_options project_state ''dc:load:nowhere/*.vue''
             (Some ''/project/src/pages/index.astro''))
       = None
   \<and> warned (snd (resolveId project_env project_options project_state ''dc:load:nowhere/*.vue''
                     (Some ''/project/src/pages/index.astro'')))
       = [''[dynamic-component] Cannot resolve path alias \"nowhere\".'']
   \<and> fst (resolveId project_env project_options project_state ''dc:load:/components/*.vue''
             (Some ''/project/src/pages/index.astro''))
       = None
   \<and> warned (snd (resolveId project_env project_options project_state
                     ''dc:load:/components/*.vue'' (Some ''/project/src/pages/index.astro'')))
       = [''[dynamic-component] No files matched for pattern \"/components/*.vue\"'']
   \<and> fst (load project_env project_state ''/project/src/_generate_/_virtual_dc_a256b426.astro'')
       = None
   \<and> warned (snd (load project_env project_state
                     ''/project/src/_generate_/_virtual_dc_a256b426.astro''))
       = [''[dynamic-component] Code not found in cache for /project/src/_generate_/_virtual_dc_a256b426.astro'']"
proof -
  let ?imp = "''/project/src/pages/index.astro''"
  have a: "resolveId project_env project_options project_state ''./x.vue'' (Some ?imp)
      = (None, project_state)"
    using failures_decline_with_warning
            [where src = "''./x.vue''" and e = project_env and opts = project_options
               and st = project_state and imp = "Some ?imp"]
    by (simp add: DC_PREFIX_def)
  have b: "resolveId project_env project_options project_state ''dc:load:./shared/*.jsx'' None
      = (None, warn (''[dynamic-component] Cannot resolve \"'' @ ''dc:load:./shared/*.jsx''
                       @ ''\" without importer'') project_state)"
    using failures_decline_with_warning
            [where src = "''dc:load:./shared/*.jsx''" and e = project_env
               and opts = project_options and st = project_state and imp = None]
    by (simp add: DC_PREFIX_def)
  have c: "resolveId project_env project_options project_state ''dc:load:nowhere/*.vue'' (Some ?imp)
      = (None, warn (''[dynamic-component] Cannot resolve path alias \"'' @ ''nowhere''
                       @ ''\".'') project_state)"
    using failures_decline_with_warning
            [where src = "''dc:load:nowhere/*.vue''" and e = project_env
               and opts = project_options and st = project_state and i = ?imp]
    by (simp add: DC_PREFIX_def project_options_fields parse_failures globBase_failures
        isPathAlias_def project_state_fields alias_nowhere)
  have rb: "resolveBase project_env project_state ''/components/*.vue'' ?imp
      = Some (''/project/src/pages/components'', ''/project/src/pages/components/*.vue'')"
    by (simp add: resolveBase_def isPathAlias_def project_fields dirname_index join_components
        globBase_failures normalizePath_def)
  have d: "resolveId project_env project_options project_state ''dc:load:/components/*.vue''
             (Some ?imp)
      = (None, warn (''[dynamic-component] No files matched for pattern \"''
                       @ ''/components/*.vue'' @ ''\"'')
                 (project_state\<lparr>globbed := globbed project_state
                                    @ [''/project/src/pages/components/*.vue'']\<rparr>))"
    using failures_decline_with_warning
            [where src = "''dc:load:/components/*.vue''" and e = project_env
               and opts = project_options and st = project_state and i = ?imp
               and bd = "''/project/src/pages/components''"
               and rp = "''/project/src/pages/components/*.vue''"]
    by (simp add: DC_PREFIX_def project_options_fields parse_failures rb project_fields
        fg_pages_components)
  have base: "posix_basename ''/project/src/_generate_/_virtual_dc_a256b426.astro''
      = ''_virtual_dc_a256b426.astro''"
    by (simp add: posix_basename_def)
  have l: "load project_env project_state ''/project/src/_generate_/_virtual_dc_a256b426.astro''
      = (None, warn (''[dynamic-component] Code not found in cache for ''
                       @ ''/project/src/_generate_/_virtual_dc_a256b426.astro'') project_state)"
    using failures_decline_with_warning
            [where e = project_env and st = project_state
               and ident = "''/project/src/_generate_/_virtual_dc_a256b426.astro''"]
    by (simp add: project_fields base suffix_def project_state_fields)
  show ?thesis
    by (simp add: a b c d l warn_fields project_state_fields)
qed


end
